theory Spec2Isabelle
  imports Main "HOL-Library.Word"
begin

section \<open>Values shared by the whole program\<close>

text \<open>
  A Go \<open>error\<close> is a value carrying a message; the nil error is \<open>None\<close> of
  \<open>error option\<close>. A Go function returning \<open>(v, error)\<close> whose caller drops \<open>v\<close> on a
  non-nil error is a sum \<open>error + 'v\<close>; \<open>Invoke\<close>, whose result travels together with the
  error, returns a pair.
\<close>

datatype error = Error string

text \<open>
  \<open>context.Context\<close> of the Go standard library, reduced to what \<open>main.go\<close> relies on:
  \<open>context.Background()\<close> is the root context, the other constructors derive a child from
  a parent. \<open>Deadline\<close> is the method of the same name (\<open>None\<close> for "no deadline set"),
  \<open>hasDone\<close> says whether \<open>Done()\<close> returns a channel that can ever be closed, that is,
  whether the context can be cancelled at all.
\<close>

datatype Context =
    Background
  | WithCancel Context
  | WithDeadline Context int
  | WithValue Context string string

fun Deadline :: "Context \<Rightarrow> int option" where
  "Deadline Background = None"
| "Deadline (WithCancel parent) = Deadline parent"
| "Deadline (WithDeadline parent d) =
     (case Deadline parent of None \<Rightarrow> Some d | Some d' \<Rightarrow> Some (min d d'))"
| "Deadline (WithValue parent k v) = Deadline parent"

fun hasDone :: "Context \<Rightarrow> bool" where
  "hasDone Background = False"
| "hasDone (WithCancel parent) = True"
| "hasDone (WithDeadline parent d) = True"
| "hasDone (WithValue parent k v) = hasDone parent"

text \<open>
  The collaborators are Go functions with side effects of their own (a sink publishes, a
  pool spawns processes). Their effect is a change of an external world \<open>'w\<close> that is
  passed in and returned. \<open>'i\<close> stands for \<open>*fnrun.Input\<close> and \<open>'r\<close> for
  \<open>*fnrun.Result\<close>; both are opaque to \<open>main.go\<close>.

  \<open>Invoker\<close> is the method \<open>Invoke\<close> of the interface \<open>fnrun.Invoker\<close>;
  \<open>eventSource\<close> and \<open>eventSink\<close> are the two function types declared at the top of
  \<open>main.go\<close>. A nil \<open>eventSink\<close> is \<open>None\<close>.
\<close>

type_synonym ('i, 'r, 'w) Invoker = "Context \<Rightarrow> 'i \<Rightarrow> 'w \<Rightarrow> ('r \<times> error option) \<times> 'w"

type_synonym ('i, 'r, 'w) eventSource =
  "Context \<Rightarrow> ('i, 'r, 'w) Invoker \<Rightarrow> 'w \<Rightarrow> error option \<times> 'w"

type_synonym ('r, 'w) eventSink = "Context \<Rightarrow> 'r \<Rightarrow> 'w \<Rightarrow> error option \<times> 'w"

section \<open>Calls made to collaborators\<close>

record cmd =
  Path :: string
  Args :: "string list"
  Env :: "string list"

text \<open>\<open>fnrun.NewCmdInvokerFactory(cmd)\<close>: the factory is determined by the command.\<close>

datatype invokerFactory = NewCmdInvokerFactory cmd

text \<open>
  \<open>fnrun.InvokerPoolConfig\<close>. \<open>MaxInvokerCount\<close> is a Go \<open>int\<close>; the two durations are
  \<open>time.Duration\<close>, a signed 64-bit count of nanoseconds whose arithmetic wraps.
\<close>

record InvokerPoolConfig =
  MaxInvokerCount :: int
  InvokerFactory :: invokerFactory
  MaxWaitDuration :: "64 word"
  MaxRunnableTime :: "64 word"

text \<open>
  Every function of the model returns, next to its value and the new world, the list of
  calls it made to its collaborators, in the order in which it made them. A collaborator
  that does not occur in the list was not called.
\<close>

datatype ('i, 'r) call =
    ParseCmdCall string
  | NewInvokerPoolCall InvokerPoolConfig
  | OpenCall string
  | LookupCall string string
  | SourceCall Context
  | InvokeCall Context 'i
  | SinkCall Context 'r

fun isSinkCall :: "('i, 'r) call \<Rightarrow> bool" where
  "isSinkCall (SinkCall c r) = True"
| "isSinkCall other = False"

fun isSourceCall :: "('i, 'r) call \<Rightarrow> bool" where
  "isSourceCall (SourceCall c) = True"
| "isSourceCall other = False"

fun callContext :: "('i, 'r) call \<Rightarrow> Context option" where
  "callContext (SourceCall c) = Some c"
| "callContext (InvokeCall c i) = Some c"
| "callContext (SinkCall c r) = Some c"
| "callContext other = None"

section \<open>Sink invoker\<close>

record ('i, 'r, 'w) sinkInvoker =
  invoker :: "('i, 'r, 'w) Invoker"
  sink :: "('r, 'w) eventSink option"

definition Invoke ::
  "('i, 'r, 'w) sinkInvoker \<Rightarrow> Context \<Rightarrow> 'i \<Rightarrow> 'w
     \<Rightarrow> ('r \<times> error option) \<times> ('i, 'r) call list \<times> 'w" where
  "Invoke si ctx input w =
     (case invoker si ctx input w of ((result, err), w1) \<Rightarrow>
        if err \<noteq> None then ((result, err), [InvokeCall ctx input], w1)
        else (case sink si of
            None \<Rightarrow> ((result, err), [InvokeCall ctx input], w1)
          | Some snk \<Rightarrow>
              (case snk ctx result w1 of (newErr, w2) \<Rightarrow>
                 if newErr \<noteq> None
                 then ((result, newErr), [InvokeCall ctx input, SinkCall ctx result], w2)
                 else ((result, err), [InvokeCall ctx input, SinkCall ctx result], w2))))"

section \<open>Process environment and number parsing\<close>

text \<open>
  The process environment is a list of key/value pairs; nothing in \<open>main.go\<close> writes
  it. \<open>os.Getenv\<close> returns the value of the variable, which is empty when the variable
  is not present; \<open>os.Environ\<close> returns the pairs in the form \<open>key=value\<close>.
\<close>

type_synonym environ = "(string \<times> string) list"

definition Getenv :: "environ \<Rightarrow> string \<Rightarrow> string" where
  "Getenv env key = (case map_of env key of None \<Rightarrow> [] | Some v \<Rightarrow> v)"

definition Environ :: "environ \<Rightarrow> string list" where
  "Environ env = map (\<lambda>(k, v). k @ ''='' @ v) env"

text \<open>
  \<open>strconv.Atoi\<close> of the Go standard library, for a 64-bit \<open>int\<close>: an optional sign
  followed by one or more decimal digits, read in base 10. Anything else is a syntax error,
  and a value outside \<open>-2^63 .. 2^63 - 1\<close> is a range error. Only the kind of the error
  is kept in its message; \<open>main.go\<close> never looks at it.
\<close>

definition isDigit :: "char \<Rightarrow> bool" where
  "isDigit ch = (48 \<le> (of_char ch :: int) \<and> (of_char ch :: int) \<le> 57)"

fun digits :: "int \<Rightarrow> string \<Rightarrow> int option" where
  "digits n [] = Some n"
| "digits n (ch # rest) =
     (if isDigit ch then digits (n * 10 + (of_char ch - 48)) rest else None)"

fun unsigned :: "string \<Rightarrow> string" where
  "unsigned [] = []"
| "unsigned (ch # rest) = (if ch = CHR ''-'' \<or> ch = CHR ''+'' then rest else ch # rest)"

fun negative :: "string \<Rightarrow> bool" where
  "negative [] = False"
| "negative (ch # rest) = (ch = CHR ''-'')"

definition ErrSyntax :: error where
  "ErrSyntax = Error ''invalid syntax''"

definition ErrRange :: error where
  "ErrRange = Error ''value out of range''"

definition Atoi :: "string \<Rightarrow> error + int" where
  "Atoi s =
     (if unsigned s = [] then Inl ErrSyntax
      else (case digits 0 (unsigned s) of
          None \<Rightarrow> Inl ErrSyntax
        | Some n \<Rightarrow>
            (let i = (if negative s then - n else n) in
             if i < - (2 ^ 63) \<or> 2 ^ 63 - 1 < i then Inl ErrRange else Inr i)))"

text \<open>\<open>time.Millisecond\<close>, in nanoseconds.\<close>

definition Millisecond :: "64 word" where
  "Millisecond = 1000000"

section \<open>Plugins\<close>

text \<open>
  A \<open>plugin.Symbol\<close> is a value of type \<open>any\<close>: it carries its dynamic type. The two
  function types that \<open>main.go\<close> asserts get a constructor each; a symbol of any other
  dynamic type is \<open>OtherSymbol\<close>, with the name of that type. A type assertion
  \<open>sym.(T)\<close> succeeds exactly when the dynamic type of \<open>sym\<close> is \<open>T\<close>.
\<close>

datatype ('i, 'r, 'w) symbol =
    SourceFunc "('i, 'r, 'w) eventSource"
  | SinkFunc "('r, 'w) eventSink"
  | OtherSymbol string

datatype ('i, 'r, 'w) plugin = Plugin (Lookup: "string \<Rightarrow> error + ('i, 'r, 'w) symbol")

text \<open>\<open>symSource.(func(context.Context, fnrun.Invoker) error)\<close>\<close>

fun assertSource :: "('i, 'r, 'w) symbol \<Rightarrow> ('i, 'r, 'w) eventSource option" where
  "assertSource (SourceFunc f) = Some f"
| "assertSource (SinkFunc f) = None"
| "assertSource (OtherSymbol t) = None"

text \<open>\<open>symSink.(func(ctx context.Context, result *fnrun.Result) error)\<close>\<close>

fun assertSink :: "('i, 'r, 'w) symbol \<Rightarrow> ('r, 'w) eventSink option" where
  "assertSink (SinkFunc f) = Some f"
| "assertSink (SourceFunc f) = None"
| "assertSink (OtherSymbol t) = None"

section \<open>Main application\<close>

text \<open>
  The packages \<open>executil\<close>, \<open>fnrun\<close> and \<open>plugin\<close> are not part of this program: the
  functions \<open>main.go\<close> calls from them are parameters of the model.
\<close>

record ('i, 'r, 'w) host =
  ParseCmd :: "string \<Rightarrow> 'w \<Rightarrow> (error + cmd) \<times> 'w"
  NewInvokerPool :: "InvokerPoolConfig \<Rightarrow> 'w \<Rightarrow> (error + ('i, 'r, 'w) Invoker) \<times> 'w"
  plugin_Open :: "string \<Rightarrow> 'w \<Rightarrow> (error + ('i, 'r, 'w) plugin) \<times> 'w"

definition getEventSource ::
  "('i, 'r, 'w) host \<Rightarrow> environ \<Rightarrow> 'w
     \<Rightarrow> (error + ('i, 'r, 'w) eventSource) \<times> ('i, 'r) call list \<times> 'w" where
  "getEventSource h env w =
     (let path = Getenv env ''SOURCE_PLUGIN_PATH'' in
      if path = []
      then (Inl (Error ''SOURCE_PLUGIN_PATH is a required environment variable''), [], w)
      else (case plugin_Open h path w of
          (Inl err, w1) \<Rightarrow> (Inl err, [OpenCall path], w1)
        | (Inr p, w1) \<Rightarrow>
            (let symbolName = Getenv env ''SOURCE_PLUGIN_SYMBOL'' in
             if symbolName = []
             then (Inl (Error ''SOURCE_PLUGIN_SYMBOL is a required environment variable''),
                   [OpenCall path], w1)
             else (case Lookup p symbolName of
                 Inl err \<Rightarrow> (Inl err, [OpenCall path, LookupCall path symbolName], w1)
               | Inr symSource \<Rightarrow>
                   (case assertSource symSource of
                      None \<Rightarrow>
                        (Inl (Error (''Symbol '' @ symbolName @ '' could not be found in '' @ path)),
                         [OpenCall path, LookupCall path symbolName], w1)
                    | Some source \<Rightarrow>
                        (Inr source, [OpenCall path, LookupCall path symbolName], w1))))))"

definition getEventSink ::
  "('i, 'r, 'w) host \<Rightarrow> environ \<Rightarrow> 'w
     \<Rightarrow> (error + ('r, 'w) eventSink option) \<times> ('i, 'r) call list \<times> 'w" where
  "getEventSink h env w =
     (let path = Getenv env ''SINK_PLUGIN_PATH'' in
      if path = []
      then (Inr None, [], w)
      else (case plugin_Open h path w of
          (Inl err, w1) \<Rightarrow> (Inl err, [OpenCall path], w1)
        | (Inr p, w1) \<Rightarrow>
            (let symbolName = Getenv env ''SINK_PLUGIN_SYMBOL'' in
             if symbolName = []
             then (Inl (Error ''SINK_PLUGIN_SYMBOL is required when a SINK_PLUGIN_PATH is provided''),
                   [OpenCall path], w1)
             else (case Lookup p symbolName of
                 Inl err \<Rightarrow> (Inl err, [OpenCall path, LookupCall path symbolName], w1)
               | Inr symSink \<Rightarrow>
                   (case assertSink symSink of
                      None \<Rightarrow>
                        (Inl (Error (''Symbol '' @ symbolName @ '' could not be found in '' @ path)),
                         [OpenCall path, LookupCall path symbolName], w1)
                    | Some snk \<Rightarrow>
                        (Inr (Some snk), [OpenCall path, LookupCall path symbolName], w1))))))"

definition getInvoker ::
  "('i, 'r, 'w) host \<Rightarrow> environ \<Rightarrow> 'w
     \<Rightarrow> (error + ('i, 'r, 'w) Invoker) \<times> ('i, 'r) call list \<times> 'w" where
  "getInvoker h env w =
     (case ParseCmd h (Getenv env ''FUNCTION_COMMAND'') w of
        (Inl err, w1) \<Rightarrow> (Inl err, [ParseCmdCall (Getenv env ''FUNCTION_COMMAND'')], w1)
      | (Inr parsed, w1) \<Rightarrow>
          (let cmd = parsed\<lparr>Env := Environ env\<rparr>;
               maxFuncCountStr = Getenv env ''MAX_FUNCTION_COUNT'';
               maxFuncCount =
                 (if maxFuncCountStr \<noteq> []
                  then (case Atoi maxFuncCountStr of Inr i \<Rightarrow> i | Inl err \<Rightarrow> 8)
                  else 8);
               maxWaitMillisStr = Getenv env ''MAX_WAIT_MILLIS'';
               maxWaitMillis =
                 (if maxWaitMillisStr \<noteq> []
                  then (case Atoi maxWaitMillisStr of Inr i \<Rightarrow> i | Inl err \<Rightarrow> 500)
                  else 500);
               maxExecMillisStr = Getenv env ''MAX_EXEC_MILLIS'';
               maxExecMillis =
                 (if maxExecMillisStr \<noteq> []
                  then (case Atoi maxExecMillisStr of Inr i \<Rightarrow> i | Inl err \<Rightarrow> 30000)
                  else 30000);
               config = \<lparr>MaxInvokerCount = maxFuncCount,
                         InvokerFactory = NewCmdInvokerFactory cmd,
                         MaxWaitDuration = word_of_int maxWaitMillis * Millisecond,
                         MaxRunnableTime = word_of_int maxExecMillis * Millisecond\<rparr>
           in (case NewInvokerPool h config w1 of
                 (Inl err, w2) \<Rightarrow>
                   (Inl err,
                    [ParseCmdCall (Getenv env ''FUNCTION_COMMAND''), NewInvokerPoolCall config], w2)
               | (Inr pool, w2) \<Rightarrow>
                   (Inr pool,
                    [ParseCmdCall (Getenv env ''FUNCTION_COMMAND''), NewInvokerPoolCall config], w2))))"

text \<open>
  The value \<open>&sinkInvoker{...}\<close> handed to the event source as a \<open>fnrun.Invoker\<close>: its
  method \<open>Invoke\<close>, seen through the interface.
\<close>

definition asInvoker :: "('i, 'r, 'w) sinkInvoker \<Rightarrow> ('i, 'r, 'w) Invoker" where
  "asInvoker si ctx input w = (case Invoke si ctx input w of (ret, cs, w') \<Rightarrow> (ret, w'))"

definition run ::
  "('i, 'r, 'w) host \<Rightarrow> environ \<Rightarrow> 'w \<Rightarrow> error option \<times> ('i, 'r) call list \<times> 'w" where
  "run h env w =
     (case getInvoker h env w of
        (Inl err, cs1, w1) \<Rightarrow> (Some err, cs1, w1)
      | (Inr pool, cs1, w1) \<Rightarrow>
          (case getEventSource h env w1 of
             (Inl err, cs2, w2) \<Rightarrow> (Some err, cs1 @ cs2, w2)
           | (Inr eventSource, cs2, w2) \<Rightarrow>
               (case getEventSink h env w2 of
                  (Inl err, cs3, w3) \<Rightarrow> (Some err, cs1 @ cs2 @ cs3, w3)
                | (Inr eventSink, cs3, w3) \<Rightarrow>
                    (case eventSource Background
                            (asInvoker \<lparr>invoker = pool, sink = eventSink\<rparr>) w3 of
                       (err, w4) \<Rightarrow> (err, cs1 @ cs2 @ cs3 @ [SourceCall Background], w4)))))"

text \<open>Reading a result of the model: the value, the calls made, the world left behind.\<close>

definition retval :: "'a \<times> 'c list \<times> 'w \<Rightarrow> 'a" where
  "retval x = fst x"

definition calls :: "'a \<times> 'c list \<times> 'w \<Rightarrow> 'c list" where
  "calls x = fst (snd x)"

definition world :: "'a \<times> 'c list \<times> 'w \<Rightarrow> 'w" where
  "world x = snd (snd x)"

fun poolConfigs :: "('i, 'r) call list \<Rightarrow> InvokerPoolConfig list" where
  "poolConfigs [] = []"
| "poolConfigs (NewInvokerPoolCall config # cs) = config # poolConfigs cs"
| "poolConfigs (other # cs) = poolConfigs cs"

fun isPoolCall :: "('i, 'r) call \<Rightarrow> bool" where
  "isPoolCall (ParseCmdCall s) = True"
| "isPoolCall (NewInvokerPoolCall config) = True"
| "isPoolCall other = False"

fun isPluginCall :: "('i, 'r) call \<Rightarrow> bool" where
  "isPluginCall (OpenCall path) = True"
| "isPluginCall (LookupCall path symbolName) = True"
| "isPluginCall other = False"

section \<open>Collaborators used in the examples\<close>

text \<open>
  Concrete collaborators on which the theorems below are run. Inputs and results are
  strings, and the world is a journal of what the collaborators did.
\<close>

definition okInvoker :: "(string, string, string list) Invoker" where
  "okInvoker ctx input w = ((''ok'', None), w @ [''ran '' @ input])"

definition failingInvoker :: "(string, string, string list) Invoker" where
  "failingInvoker ctx input w =
     ((''partial'', Some (Error ''exit status 1'')), w @ [''ran '' @ input])"

definition okSink :: "(string, string list) eventSink" where
  "okSink ctx result w = (None, w @ [''sent '' @ result])"

definition diskFullSink :: "(string, string list) eventSink" where
  "diskFullSink ctx result w = (Some (Error ''disk full''), w @ [''lost '' @ result])"

text \<open>An event source that produces one event and returns the error of its invocation.\<close>

definition oneEventSource :: "(string, string, string list) eventSource" where
  "oneEventSource ctx ivk w = (case ivk ctx ''event'' w of ((result, err), w') \<Rightarrow> (err, w'))"

definition srcPlugin :: "(string, string, string list) plugin" where
  "srcPlugin = Plugin (\<lambda>name.
     if name = ''Source'' then Inr (SourceFunc oneEventSource)
     else if name = ''Version'' then Inr (OtherSymbol ''*string'')
     else Inl (Error (''plugin: symbol '' @ name @ '' not found in plugin src'')))"

definition sinkPlugin :: "(string, string, string list) plugin" where
  "sinkPlugin = Plugin (\<lambda>name.
     if name = ''Sink'' then Inr (SinkFunc diskFullSink)
     else if name = ''Quiet'' then Inr (SinkFunc okSink)
     else if name = ''Legacy'' then Inr (OtherSymbol ''func(*fnrun.Result) error'')
     else Inl (Error (''plugin: symbol '' @ name @ '' not found in plugin sink'')))"

definition demoHost :: "(string, string, string list) host" where
  "demoHost =
     \<lparr>ParseCmd = (\<lambda>s w.
        if s = [] then (Inl (Error ''empty command''), w)
        else (Inr \<lparr>Path = s, Args = [s], Env = []\<rparr>, w)),
      NewInvokerPool = (\<lambda>config w. (Inr okInvoker, w @ [''pool''])),
      plugin_Open = (\<lambda>path w.
        if path = ''./src.so'' then (Inr srcPlugin, w @ [''opened '' @ path])
        else if path = ''./sink.so'' then (Inr sinkPlugin, w @ [''opened '' @ path])
        else (Inl (Error (''plugin.Open: '' @ path @ '': not found'')), w))\<rparr>"

text \<open>The same host with a pool that cannot be built.\<close>

definition noPoolHost :: "(string, string, string list) host" where
  "noPoolHost =
     demoHost\<lparr>NewInvokerPool := (\<lambda>config w. (Inl (Error ''cannot start workers''), w))\<rparr>"

definition baseEnv :: environ where
  "baseEnv =
     [(''FUNCTION_COMMAND'', ''cat''),
      (''SOURCE_PLUGIN_PATH'', ''./src.so''),
      (''SOURCE_PLUGIN_SYMBOL'', ''Source'')]"

text \<open>The same environment with a sink, and the pool configuration built from it.\<close>

definition sinkEnv :: environ where
  "sinkEnv = baseEnv @ [(''SINK_PLUGIN_PATH'', ''./sink.so''), (''SINK_PLUGIN_SYMBOL'', ''Sink'')]"

definition sinkConfig :: InvokerPoolConfig where
  "sinkConfig =
     \<lparr>MaxInvokerCount = 8,
      InvokerFactory =
        NewCmdInvokerFactory \<lparr>Path = ''cat'', Args = [''cat''], Env = Environ sinkEnv\<rparr>,
      MaxWaitDuration = 500000000,
      MaxRunnableTime = 30000000000\<rparr>"

text \<open>Hosts on which the source module, or the sink module, cannot be loaded.\<close>

definition noSourceHost :: "(string, string, string list) host" where
  "noSourceHost =
     demoHost\<lparr>plugin_Open := (\<lambda>path w.
        if path = ''./sink.so'' then (Inr sinkPlugin, w @ [''opened '' @ path])
        else (Inl (Error (''plugin.Open: '' @ path @ '': not found'')), w))\<rparr>"

definition noSinkHost :: "(string, string, string list) host" where
  "noSinkHost =
     demoHost\<lparr>plugin_Open := (\<lambda>path w.
        if path = ''./src.so'' then (Inr srcPlugin, w @ [''opened '' @ path])
        else (Inl (Error (''plugin.Open: '' @ path @ '': not found'')), w))\<rparr>"

text \<open>Further environments for the examples.\<close>

definition cmdEnv :: environ where
  "cmdEnv = [(''FUNCTION_COMMAND'', ''cat'')]"

definition policyEnv :: environ where
  "policyEnv =
     [(''FUNCTION_COMMAND'', ''cat''), (''MAX_WAIT_MILLIS'', ''250''), (''MAX_EXEC_MILLIS'', ''soon'')]"

definition zeroCountEnv :: environ where
  "zeroCountEnv = [(''FUNCTION_COMMAND'', ''cat''), (''MAX_FUNCTION_COUNT'', ''0'')]"

definition signedEnv :: environ where
  "signedEnv =
     [(''FUNCTION_COMMAND'', ''cat''), (''MAX_FUNCTION_COUNT'', ''-3''),
      (''MAX_WAIT_MILLIS'', ''1.5''), (''MAX_EXEC_MILLIS'', ''+60000'')]"


definition versionEnv :: environ where
  "versionEnv = (''SOURCE_PLUGIN_SYMBOL'', ''Version'') # sinkEnv"

definition legacyEnv :: environ where
  "legacyEnv = (''SINK_PLUGIN_SYMBOL'', ''Legacy'') # sinkEnv"

definition pathOnlyEnv :: environ where
  "pathOnlyEnv = [(''FUNCTION_COMMAND'', ''cat''), (''SOURCE_PLUGIN_PATH'', ''./src.so'')]"

text \<open>
  Collaborators that read the context they are given: an invoker and a sink that look at
  its deadline, and an event source that asks for a deadline and a \<open>Done\<close> channel before
  it derives a context of its own for its one invocation.
\<close>

definition ctxInvoker :: "(string, string, string list) Invoker" where
  "ctxInvoker ctx input w =
     ((''ok'', None),
      w @ [if Deadline ctx = Some 5 then ''ran with deadline 5'' else ''ran with another context''])"

definition ctxSink :: "(string, string list) eventSink" where
  "ctxSink ctx result w =
     (if Deadline ctx = Some 5 then None else Some (Error ''context lost''),
      w @ [''sent '' @ result])"

definition forwardSource :: "(string, string, string list) eventSource" where
  "forwardSource ctx ivk w =
     (case ivk (WithDeadline ctx 5) ''event'' w of ((result, err), w') \<Rightarrow> (err, w'))"

definition refusingSource :: "(string, string, string list) eventSource" where
  "refusingSource ctx ivk w = (Some (Error ''context can end''), w)"

definition watchfulSource :: "(string, string, string list) eventSource" where
  "watchfulSource =
     (\<lambda>ctx ivk w. if Deadline ctx = None \<and> \<not> hasDone ctx
                   then forwardSource ctx ivk w else refusingSource ctx ivk w)"

definition ctxHost :: "(string, string, string list) host" where
  "ctxHost =
     demoHost\<lparr>NewInvokerPool := (\<lambda>config w. (Inr ctxInvoker, w @ [''pool''])),
              plugin_Open := (\<lambda>path w.
        if path = ''./src.so''
        then (Inr (Plugin (\<lambda>name. Inr (SourceFunc watchfulSource))), w @ [''opened '' @ path])
        else (Inr (Plugin (\<lambda>name. Inr (SinkFunc ctxSink))), w @ [''opened '' @ path]))\<rparr>"

section \<open>Facts about the environment, the parser and the setup steps\<close>

lemma Getenv_absent: "map_of env key = None \<Longrightarrow> Getenv env key = []"
  by (simp add: Getenv_def)

lemma Getenv_empty: "map_of env key = Some [] \<Longrightarrow> Getenv env key = []"
  by (simp add: Getenv_def)

lemma Atoi_empty: "Atoi [] = Inl ErrSyntax"
  by (simp add: Atoi_def)

lemma Atoi_range: "Atoi s = Inr i \<Longrightarrow> - (2 ^ 63) \<le> i \<and> i \<le> 2 ^ 63 - 1"
  by (auto simp: Atoi_def Let_def split: if_splits option.splits)

lemma pool_call_not_source: "isPoolCall c \<Longrightarrow> \<not> isSourceCall c"
  by (cases c) simp_all

lemma plugin_call_not_source: "isPluginCall c \<Longrightarrow> \<not> isSourceCall c"
  by (cases c) simp_all

lemma no_source_in_pool_calls: "list_all isPoolCall cs \<Longrightarrow> filter isSourceCall cs = []"
  by (induction cs) (auto dest: pool_call_not_source)

lemma no_source_in_plugin_calls: "list_all isPluginCall cs \<Longrightarrow> filter isSourceCall cs = []"
  by (induction cs) (auto dest: plugin_call_not_source)

lemma getInvoker_parse_failed:
  assumes "ParseCmd h (Getenv env ''FUNCTION_COMMAND'') w = (Inl e, w1)"
  shows "getInvoker h env w = (Inl e, [ParseCmdCall (Getenv env ''FUNCTION_COMMAND'')], w1)"
  using assms by (simp add: getInvoker_def)

lemma getInvoker_parsed:
  assumes "ParseCmd h (Getenv env ''FUNCTION_COMMAND'') w = (Inr parsed, w1)"
  shows "\<exists>config.
           getInvoker h env w =
             (fst (NewInvokerPool h config w1),
              [ParseCmdCall (Getenv env ''FUNCTION_COMMAND''), NewInvokerPoolCall config],
              snd (NewInvokerPool h config w1))
         \<and> MaxInvokerCount config =
             (if Getenv env ''MAX_FUNCTION_COUNT'' \<noteq> []
              then (case Atoi (Getenv env ''MAX_FUNCTION_COUNT'') of Inr i \<Rightarrow> i | Inl err \<Rightarrow> 8)
              else 8)
         \<and> InvokerFactory config = NewCmdInvokerFactory (parsed\<lparr>Env := Environ env\<rparr>)
         \<and> MaxWaitDuration config =
             word_of_int (if Getenv env ''MAX_WAIT_MILLIS'' \<noteq> []
                          then (case Atoi (Getenv env ''MAX_WAIT_MILLIS'') of
                                  Inr i \<Rightarrow> i | Inl err \<Rightarrow> 500)
                          else 500) * Millisecond
         \<and> MaxRunnableTime config =
             word_of_int (if Getenv env ''MAX_EXEC_MILLIS'' \<noteq> []
                          then (case Atoi (Getenv env ''MAX_EXEC_MILLIS'') of
                                  Inr i \<Rightarrow> i | Inl err \<Rightarrow> 30000)
                          else 30000) * Millisecond"
proof -
  define config where "config =
    \<lparr>MaxInvokerCount =
        (if Getenv env ''MAX_FUNCTION_COUNT'' \<noteq> []
         then (case Atoi (Getenv env ''MAX_FUNCTION_COUNT'') of Inr i \<Rightarrow> i | Inl err \<Rightarrow> 8)
         else 8),
      InvokerFactory = NewCmdInvokerFactory (parsed\<lparr>Env := Environ env\<rparr>),
      MaxWaitDuration =
        word_of_int (if Getenv env ''MAX_WAIT_MILLIS'' \<noteq> []
                     then (case Atoi (Getenv env ''MAX_WAIT_MILLIS'') of
                             Inr i \<Rightarrow> i | Inl err \<Rightarrow> 500)
                     else 500) * Millisecond,
      MaxRunnableTime =
        word_of_int (if Getenv env ''MAX_EXEC_MILLIS'' \<noteq> []
                     then (case Atoi (Getenv env ''MAX_EXEC_MILLIS'') of
                             Inr i \<Rightarrow> i | Inl err \<Rightarrow> 30000)
                     else 30000) * Millisecond\<rparr>"
  have unfolded: "getInvoker h env w =
      (case NewInvokerPool h config w1 of
         (Inl err, w2) \<Rightarrow>
           (Inl err,
            [ParseCmdCall (Getenv env ''FUNCTION_COMMAND''), NewInvokerPoolCall config], w2)
       | (Inr pool, w2) \<Rightarrow>
           (Inr pool,
            [ParseCmdCall (Getenv env ''FUNCTION_COMMAND''), NewInvokerPoolCall config], w2))"
    unfolding getInvoker_def config_def Let_def using assms by simp
  have "getInvoker h env w =
          (fst (NewInvokerPool h config w1),
           [ParseCmdCall (Getenv env ''FUNCTION_COMMAND''), NewInvokerPoolCall config],
           snd (NewInvokerPool h config w1))"
  proof (cases "NewInvokerPool h config w1")
    case (Pair r w2)
    then show ?thesis unfolding unfolded by (cases r) simp_all
  qed
  moreover have "MaxInvokerCount config =
             (if Getenv env ''MAX_FUNCTION_COUNT'' \<noteq> []
              then (case Atoi (Getenv env ''MAX_FUNCTION_COUNT'') of Inr i \<Rightarrow> i | Inl err \<Rightarrow> 8)
              else 8)"
    by (simp add: config_def)
  moreover have "InvokerFactory config = NewCmdInvokerFactory (parsed\<lparr>Env := Environ env\<rparr>)"
    by (simp add: config_def)
  moreover have "MaxWaitDuration config =
             word_of_int (if Getenv env ''MAX_WAIT_MILLIS'' \<noteq> []
                          then (case Atoi (Getenv env ''MAX_WAIT_MILLIS'') of
                                  Inr i \<Rightarrow> i | Inl err \<Rightarrow> 500)
                          else 500) * Millisecond"
    by (simp add: config_def)
  moreover have "MaxRunnableTime config =
             word_of_int (if Getenv env ''MAX_EXEC_MILLIS'' \<noteq> []
                          then (case Atoi (Getenv env ''MAX_EXEC_MILLIS'') of
                                  Inr i \<Rightarrow> i | Inl err \<Rightarrow> 30000)
                          else 30000) * Millisecond"
    by (simp add: config_def)
  ultimately show ?thesis by blast
qed

lemma getInvoker_calls: "list_all isPoolCall (calls (getInvoker h env w))"
proof (cases "ParseCmd h (Getenv env ''FUNCTION_COMMAND'') w")
  case (Pair r w1)
  show ?thesis
  proof (cases r)
    case (Inl e)
    with Pair show ?thesis by (simp add: getInvoker_parse_failed calls_def)
  next
    case (Inr parsed)
    with Pair obtain config where
      "getInvoker h env w =
         (fst (NewInvokerPool h config w1),
          [ParseCmdCall (Getenv env ''FUNCTION_COMMAND''), NewInvokerPoolCall config],
          snd (NewInvokerPool h config w1))"
      using getInvoker_parsed [of h env w parsed w1] by blast
    then show ?thesis by (simp add: calls_def)
  qed
qed

lemma getEventSource_calls: "list_all isPluginCall (calls (getEventSource h env w))"
  by (simp add: getEventSource_def calls_def Let_def split: prod.splits sum.splits option.splits)

lemma getEventSink_calls: "list_all isPluginCall (calls (getEventSink h env w))"
  by (simp add: getEventSink_def calls_def Let_def split: prod.splits sum.splits option.splits)

lemma run_pool_failed:
  "getInvoker h env w = (Inl e, cs1, w1) \<Longrightarrow> run h env w = (Some e, cs1, w1)"
  by (simp add: run_def)

lemma run_source_failed:
  "getInvoker h env w = (Inr pool, cs1, w1) \<Longrightarrow> getEventSource h env w1 = (Inl e, cs2, w2)
     \<Longrightarrow> run h env w = (Some e, cs1 @ cs2, w2)"
  by (simp add: run_def)

lemma run_sink_failed:
  "getInvoker h env w = (Inr pool, cs1, w1) \<Longrightarrow> getEventSource h env w1 = (Inr src, cs2, w2)
     \<Longrightarrow> getEventSink h env w2 = (Inl e, cs3, w3)
     \<Longrightarrow> run h env w = (Some e, cs1 @ cs2 @ cs3, w3)"
  by (simp add: run_def)

lemma run_setup_ok:
  "getInvoker h env w = (Inr pool, cs1, w1) \<Longrightarrow> getEventSource h env w1 = (Inr src, cs2, w2)
     \<Longrightarrow> getEventSink h env w2 = (Inr snk, cs3, w3)
     \<Longrightarrow> run h env w =
          (fst (src Background (asInvoker \<lparr>invoker = pool, sink = snk\<rparr>) w3),
           cs1 @ cs2 @ cs3 @ [SourceCall Background],
           snd (src Background (asInvoker \<lparr>invoker = pool, sink = snk\<rparr>) w3))"
  by (simp add: run_def split: prod.splits)

lemma calls_triple: "calls (a, cs, w) = cs"
  by (simp add: calls_def)

lemma getInvoker_calls': "getInvoker h env w = (r, cs, w') \<Longrightarrow> list_all isPoolCall cs"
  using getInvoker_calls [of h env w] by (simp add: calls_def)

lemma getEventSource_calls': "getEventSource h env w = (r, cs, w') \<Longrightarrow> list_all isPluginCall cs"
  using getEventSource_calls [of h env w] by (simp add: calls_def)

lemma getEventSink_calls': "getEventSink h env w = (r, cs, w') \<Longrightarrow> list_all isPluginCall cs"
  using getEventSink_calls [of h env w] by (simp add: calls_def)

section \<open>Facts about the resolution of the event source and the event sink\<close>

lemma getEventSink_no_path:
  "Getenv env ''SINK_PLUGIN_PATH'' = [] \<Longrightarrow> getEventSink h env w = (Inr None, [], w)"
  by (simp add: getEventSink_def)

lemma getEventSink_open_failed:
  "Getenv env ''SINK_PLUGIN_PATH'' \<noteq> [] \<Longrightarrow>
   plugin_Open h (Getenv env ''SINK_PLUGIN_PATH'') w = (Inl e, w1) \<Longrightarrow>
   getEventSink h env w = (Inl e, [OpenCall (Getenv env ''SINK_PLUGIN_PATH'')], w1)"
  by (simp add: getEventSink_def)

lemma getEventSink_no_symbol:
  "Getenv env ''SINK_PLUGIN_PATH'' \<noteq> [] \<Longrightarrow>
   plugin_Open h (Getenv env ''SINK_PLUGIN_PATH'') w = (Inr p, w1) \<Longrightarrow>
   Getenv env ''SINK_PLUGIN_SYMBOL'' = [] \<Longrightarrow>
   getEventSink h env w =
     (Inl (Error ''SINK_PLUGIN_SYMBOL is required when a SINK_PLUGIN_PATH is provided''),
      [OpenCall (Getenv env ''SINK_PLUGIN_PATH'')], w1)"
  by (simp add: getEventSink_def)

lemma getEventSink_lookup:
  "Getenv env ''SINK_PLUGIN_PATH'' \<noteq> [] \<Longrightarrow>
   plugin_Open h (Getenv env ''SINK_PLUGIN_PATH'') w = (Inr p, w1) \<Longrightarrow>
   Getenv env ''SINK_PLUGIN_SYMBOL'' \<noteq> [] \<Longrightarrow>
   getEventSink h env w =
     (case Lookup p (Getenv env ''SINK_PLUGIN_SYMBOL'') of
        Inl err \<Rightarrow> Inl err
      | Inr symSink \<Rightarrow>
          (case assertSink symSink of
             None \<Rightarrow> Inl (Error (''Symbol '' @ Getenv env ''SINK_PLUGIN_SYMBOL''
                                  @ '' could not be found in '' @ Getenv env ''SINK_PLUGIN_PATH''))
           | Some snk \<Rightarrow> Inr (Some snk)),
      [OpenCall (Getenv env ''SINK_PLUGIN_PATH''),
       LookupCall (Getenv env ''SINK_PLUGIN_PATH'') (Getenv env ''SINK_PLUGIN_SYMBOL'')], w1)"
  by (simp add: getEventSink_def Let_def split: sum.splits option.splits)

lemma getEventSource_no_path:
  "Getenv env ''SOURCE_PLUGIN_PATH'' = [] \<Longrightarrow>
   getEventSource h env w =
     (Inl (Error ''SOURCE_PLUGIN_PATH is a required environment variable''), [], w)"
  by (simp add: getEventSource_def)

lemma getEventSource_open_failed:
  "Getenv env ''SOURCE_PLUGIN_PATH'' \<noteq> [] \<Longrightarrow>
   plugin_Open h (Getenv env ''SOURCE_PLUGIN_PATH'') w = (Inl e, w1) \<Longrightarrow>
   getEventSource h env w = (Inl e, [OpenCall (Getenv env ''SOURCE_PLUGIN_PATH'')], w1)"
  by (simp add: getEventSource_def)

lemma getEventSource_no_symbol:
  "Getenv env ''SOURCE_PLUGIN_PATH'' \<noteq> [] \<Longrightarrow>
   plugin_Open h (Getenv env ''SOURCE_PLUGIN_PATH'') w = (Inr p, w1) \<Longrightarrow>
   Getenv env ''SOURCE_PLUGIN_SYMBOL'' = [] \<Longrightarrow>
   getEventSource h env w =
     (Inl (Error ''SOURCE_PLUGIN_SYMBOL is a required environment variable''),
      [OpenCall (Getenv env ''SOURCE_PLUGIN_PATH'')], w1)"
  by (simp add: getEventSource_def)

lemma getEventSource_lookup:
  "Getenv env ''SOURCE_PLUGIN_PATH'' \<noteq> [] \<Longrightarrow>
   plugin_Open h (Getenv env ''SOURCE_PLUGIN_PATH'') w = (Inr p, w1) \<Longrightarrow>
   Getenv env ''SOURCE_PLUGIN_SYMBOL'' \<noteq> [] \<Longrightarrow>
   getEventSource h env w =
     (case Lookup p (Getenv env ''SOURCE_PLUGIN_SYMBOL'') of
        Inl err \<Rightarrow> Inl err
      | Inr symSource \<Rightarrow>
          (case assertSource symSource of
             None \<Rightarrow> Inl (Error (''Symbol '' @ Getenv env ''SOURCE_PLUGIN_SYMBOL''
                                  @ '' could not be found in '' @ Getenv env ''SOURCE_PLUGIN_PATH''))
           | Some source \<Rightarrow> Inr source),
      [OpenCall (Getenv env ''SOURCE_PLUGIN_PATH''),
       LookupCall (Getenv env ''SOURCE_PLUGIN_PATH'') (Getenv env ''SOURCE_PLUGIN_SYMBOL'')], w1)"
  by (simp add: getEventSource_def Let_def split: sum.splits option.splits)

lemma assertSource_Some: "assertSource s = Some f \<longleftrightarrow> s = SourceFunc f"
  by (cases s) auto

lemma assertSink_Some: "assertSink s = Some f \<longleftrightarrow> s = SinkFunc f"
  by (cases s) auto

lemma getEventSource_Inr:
  assumes "getEventSource h env w = (Inr f, cs, w')"
  shows "\<exists>p. Getenv env ''SOURCE_PLUGIN_PATH'' \<noteq> [] \<and> Getenv env ''SOURCE_PLUGIN_SYMBOL'' \<noteq> []
            \<and> plugin_Open h (Getenv env ''SOURCE_PLUGIN_PATH'') w = (Inr p, w')
            \<and> Lookup p (Getenv env ''SOURCE_PLUGIN_SYMBOL'') = Inr (SourceFunc f)"
proof (cases "Getenv env ''SOURCE_PLUGIN_PATH'' = []")
  case True
  with assms show ?thesis by (simp add: getEventSource_no_path)
next
  case path: False
  obtain r w1 where op: "plugin_Open h (Getenv env ''SOURCE_PLUGIN_PATH'') w = (r, w1)"
    by (cases "plugin_Open h (Getenv env ''SOURCE_PLUGIN_PATH'') w")
  show ?thesis
  proof (cases r)
    case (Inl e)
    with assms path op show ?thesis by (simp add: getEventSource_open_failed)
  next
    case (Inr p)
    show ?thesis
    proof (cases "Getenv env ''SOURCE_PLUGIN_SYMBOL'' = []")
      case True
      with assms path op Inr show ?thesis by (simp add: getEventSource_no_symbol)
    next
      case False
      with assms path op Inr show ?thesis
        by (auto simp: getEventSource_lookup assertSource_Some split: sum.splits option.splits)
    qed
  qed
qed

lemma getEventSink_Inr_Some:
  assumes "getEventSink h env w = (Inr (Some f), cs, w')"
  shows "\<exists>p. Getenv env ''SINK_PLUGIN_PATH'' \<noteq> [] \<and> Getenv env ''SINK_PLUGIN_SYMBOL'' \<noteq> []
            \<and> plugin_Open h (Getenv env ''SINK_PLUGIN_PATH'') w = (Inr p, w')
            \<and> Lookup p (Getenv env ''SINK_PLUGIN_SYMBOL'') = Inr (SinkFunc f)"
proof (cases "Getenv env ''SINK_PLUGIN_PATH'' = []")
  case True
  with assms show ?thesis by (simp add: getEventSink_no_path)
next
  case path: False
  obtain r w1 where op: "plugin_Open h (Getenv env ''SINK_PLUGIN_PATH'') w = (r, w1)"
    by (cases "plugin_Open h (Getenv env ''SINK_PLUGIN_PATH'') w")
  show ?thesis
  proof (cases r)
    case (Inl e)
    with assms path op show ?thesis by (simp add: getEventSink_open_failed)
  next
    case (Inr p)
    show ?thesis
    proof (cases "Getenv env ''SINK_PLUGIN_SYMBOL'' = []")
      case True
      with assms path op Inr show ?thesis by (simp add: getEventSink_no_symbol)
    next
      case False
      with assms path op Inr show ?thesis
        by (auto simp: getEventSink_lookup assertSink_Some split: sum.splits option.splits)
    qed
  qed
qed


lemma run_cases [case_names pool_failed source_failed sink_failed started]:
  obtains
    e cs1 w1 where "getInvoker h env w = (Inl e, cs1, w1)"
      and "run h env w = (Some e, cs1, w1)"
      and "filter isSourceCall cs1 = []"
  | pool cs1 w1 e cs2 w2 where "getInvoker h env w = (Inr pool, cs1, w1)"
      and "getEventSource h env w1 = (Inl e, cs2, w2)"
      and "run h env w = (Some e, cs1 @ cs2, w2)"
      and "filter isSourceCall (cs1 @ cs2) = []"
  | pool cs1 w1 src cs2 w2 e cs3 w3 where "getInvoker h env w = (Inr pool, cs1, w1)"
      and "getEventSource h env w1 = (Inr src, cs2, w2)"
      and "getEventSink h env w2 = (Inl e, cs3, w3)"
      and "run h env w = (Some e, cs1 @ cs2 @ cs3, w3)"
      and "filter isSourceCall (cs1 @ cs2 @ cs3) = []"
  | pool cs1 w1 src cs2 w2 snk cs3 w3 where "getInvoker h env w = (Inr pool, cs1, w1)"
      and "getEventSource h env w1 = (Inr src, cs2, w2)"
      and "getEventSink h env w2 = (Inr snk, cs3, w3)"
      and "run h env w =
             (fst (src Background (asInvoker \<lparr>invoker = pool, sink = snk\<rparr>) w3),
              cs1 @ cs2 @ cs3 @ [SourceCall Background],
              snd (src Background (asInvoker \<lparr>invoker = pool, sink = snk\<rparr>) w3))"
      and "filter isSourceCall (cs1 @ cs2 @ cs3) = []"
proof -
  obtain r1 cs1 w1 where g1: "getInvoker h env w = (r1, cs1, w1)" by (metis prod_cases3)
  obtain r2 cs2 w2 where g2: "getEventSource h env w1 = (r2, cs2, w2)" by (metis prod_cases3)
  obtain r3 cs3 w3 where g3: "getEventSink h env w2 = (r3, cs3, w3)" by (metis prod_cases3)
  have n1: "filter isSourceCall cs1 = []"
    using getInvoker_calls' [OF g1] by (rule no_source_in_pool_calls)
  have n2: "filter isSourceCall cs2 = []"
    using getEventSource_calls' [OF g2] by (rule no_source_in_plugin_calls)
  have n3: "filter isSourceCall cs3 = []"
    using getEventSink_calls' [OF g3] by (rule no_source_in_plugin_calls)
  show thesis
  proof (cases r1)
    case (Inl e)
    with g1 n1 show thesis by (intro that(1) [of e cs1 w1]) (simp_all add: run_pool_failed)
  next
    case pool: (Inr pool)
    show thesis
    proof (cases r2)
      case (Inl e)
      with g1 g2 pool n1 n2 show thesis
        by (intro that(2) [of pool cs1 w1 e cs2 w2]) (simp_all add: run_source_failed)
    next
      case src: (Inr src)
      show thesis
      proof (cases r3)
        case (Inl e)
        with g1 g2 g3 pool src n1 n2 n3 show thesis
          by (intro that(3) [of pool cs1 w1 src cs2 w2 e cs3 w3])
             (simp_all add: run_sink_failed)
      next
        case (Inr snk)
        with g1 g2 g3 pool src n1 n2 n3 show thesis
          by (intro that(4) [of pool cs1 w1 src cs2 w2 snk cs3 w3])
             (simp_all add: run_setup_ok)
      qed
    qed
  qed
qed

section \<open>The examples, evaluated\<close>

lemma sinkEnv_getenv:
  "Getenv sinkEnv ''FUNCTION_COMMAND'' = ''cat''"
  "Getenv sinkEnv ''SOURCE_PLUGIN_PATH'' = ''./src.so''"
  "Getenv sinkEnv ''SOURCE_PLUGIN_SYMBOL'' = ''Source''"
  "Getenv sinkEnv ''SINK_PLUGIN_PATH'' = ''./sink.so''"
  "Getenv sinkEnv ''SINK_PLUGIN_SYMBOL'' = ''Sink''"
  "Getenv sinkEnv ''MAX_FUNCTION_COUNT'' = []"
  "Getenv sinkEnv ''MAX_WAIT_MILLIS'' = []"
  "Getenv sinkEnv ''MAX_EXEC_MILLIS'' = []"
  by (simp_all add: Getenv_def sinkEnv_def baseEnv_def)

lemma getInvoker_noPool_sinkEnv:
  "getInvoker noPoolHost sinkEnv [] =
     (Inl (Error ''cannot start workers''), [ParseCmdCall ''cat'', NewInvokerPoolCall sinkConfig], [])"
  by (simp add: getInvoker_def sinkEnv_getenv noPoolHost_def demoHost_def sinkConfig_def Millisecond_def)

lemma getInvoker_demo_sinkEnv:
  "getInvoker demoHost sinkEnv [] =
     (Inr okInvoker, [ParseCmdCall ''cat'', NewInvokerPoolCall sinkConfig], [''pool''])"
  by (simp add: getInvoker_def sinkEnv_getenv demoHost_def sinkConfig_def Millisecond_def)

lemma getInvoker_noSource_sinkEnv:
  "getInvoker noSourceHost sinkEnv [] =
     (Inr okInvoker, [ParseCmdCall ''cat'', NewInvokerPoolCall sinkConfig], [''pool''])"
  by (simp add: getInvoker_def sinkEnv_getenv noSourceHost_def demoHost_def sinkConfig_def Millisecond_def)

lemma getInvoker_noSink_sinkEnv:
  "getInvoker noSinkHost sinkEnv [] =
     (Inr okInvoker, [ParseCmdCall ''cat'', NewInvokerPoolCall sinkConfig], [''pool''])"
  by (simp add: getInvoker_def sinkEnv_getenv noSinkHost_def demoHost_def sinkConfig_def Millisecond_def)

lemma getEventSource_demo_sinkEnv:
  "getEventSource demoHost sinkEnv [''pool''] =
     (Inr oneEventSource, [OpenCall ''./src.so'', LookupCall ''./src.so'' ''Source''],
      [''pool'', ''opened ./src.so''])"
  by (simp add: getEventSource_def Let_def sinkEnv_getenv demoHost_def srcPlugin_def)

lemma getEventSource_noSource_sinkEnv:
  "getEventSource noSourceHost sinkEnv [''pool''] =
     (Inl (Error ''plugin.Open: ./src.so: not found''), [OpenCall ''./src.so''], [''pool''])"
  by (simp add: getEventSource_def Let_def sinkEnv_getenv noSourceHost_def demoHost_def)

lemma getEventSource_noSink_sinkEnv:
  "getEventSource noSinkHost sinkEnv [''pool''] =
     (Inr oneEventSource, [OpenCall ''./src.so'', LookupCall ''./src.so'' ''Source''],
      [''pool'', ''opened ./src.so''])"
  by (simp add: getEventSource_def Let_def sinkEnv_getenv noSinkHost_def demoHost_def srcPlugin_def)

lemma getEventSink_demo_sinkEnv:
  "getEventSink demoHost sinkEnv [''pool'', ''opened ./src.so''] =
     (Inr (Some diskFullSink), [OpenCall ''./sink.so'', LookupCall ''./sink.so'' ''Sink''],
      [''pool'', ''opened ./src.so'', ''opened ./sink.so''])"
  by (simp add: getEventSink_def Let_def sinkEnv_getenv demoHost_def sinkPlugin_def)

lemma getEventSink_noSink_sinkEnv:
  "getEventSink noSinkHost sinkEnv [''pool'', ''opened ./src.so''] =
     (Inl (Error ''plugin.Open: ./sink.so: not found''), [OpenCall ''./sink.so''],
      [''pool'', ''opened ./src.so''])"
  by (simp add: getEventSink_def Let_def sinkEnv_getenv noSinkHost_def demoHost_def)

lemma policy_value:
  "(if s \<noteq> [] then (case Atoi s of Inr i \<Rightarrow> i | Inl err \<Rightarrow> d) else d)
     = (case Atoi s of Inl err \<Rightarrow> d | Inr i \<Rightarrow> i)"
  by (cases "s = []") (simp_all add: Atoi_empty split: sum.splits)

lemma getInvoker_policy:
  assumes "ParseCmd h (Getenv env ''FUNCTION_COMMAND'') w = (Inr parsed, w1)"
  shows "\<exists>config.
           getInvoker h env w =
             (fst (NewInvokerPool h config w1),
              [ParseCmdCall (Getenv env ''FUNCTION_COMMAND''), NewInvokerPoolCall config],
              snd (NewInvokerPool h config w1))
         \<and> InvokerFactory config = NewCmdInvokerFactory (parsed\<lparr>Env := Environ env\<rparr>)
         \<and> MaxInvokerCount config =
             (case Atoi (Getenv env ''MAX_FUNCTION_COUNT'') of Inl err \<Rightarrow> 8 | Inr i \<Rightarrow> i)
         \<and> MaxWaitDuration config =
             word_of_int (case Atoi (Getenv env ''MAX_WAIT_MILLIS'') of
                            Inl err \<Rightarrow> 500 | Inr i \<Rightarrow> i) * Millisecond
         \<and> MaxRunnableTime config =
             word_of_int (case Atoi (Getenv env ''MAX_EXEC_MILLIS'') of
                            Inl err \<Rightarrow> 30000 | Inr i \<Rightarrow> i) * Millisecond"
  using getInvoker_parsed [OF assms] unfolding policy_value by blast

lemma Atoi_examples:
  "Atoi ''250'' = Inr 250"
  "Atoi ''soon'' = Inl ErrSyntax"
  "Atoi ''0'' = Inr 0"
  "Atoi ''-3'' = Inr (- 3)"
  "Atoi ''1.5'' = Inl ErrSyntax"
  "Atoi ''+60000'' = Inr 60000"
  by (simp_all add: Atoi_def isDigit_def)

lemma policyEnv_getenv:
  "Getenv policyEnv ''FUNCTION_COMMAND'' = ''cat''"
  "map_of policyEnv ''MAX_FUNCTION_COUNT'' = None"
  "Getenv policyEnv ''MAX_WAIT_MILLIS'' = ''250''"
  "Getenv policyEnv ''MAX_EXEC_MILLIS'' = ''soon''"
  by (simp_all add: Getenv_def policyEnv_def)

lemma demoHost_ParseCmd_cat:
  "ParseCmd demoHost ''cat'' w = (Inr \<lparr>Path = ''cat'', Args = [''cat''], Env = []\<rparr>, w)"
  by (simp add: demoHost_def)

lemma demoHost_NewInvokerPool:
  "NewInvokerPool demoHost config w = (Inr okInvoker, w @ [''pool''])"
  by (simp add: demoHost_def)

lemma poolConfigs_getInvoker:
  assumes "ParseCmd h (Getenv env ''FUNCTION_COMMAND'') w = (Inr parsed, w1)"
  shows "\<exists>config. poolConfigs (calls (getInvoker h env w)) = [config]
         \<and> MaxInvokerCount config =
             (case Atoi (Getenv env ''MAX_FUNCTION_COUNT'') of Inl err \<Rightarrow> 8 | Inr i \<Rightarrow> i)
         \<and> MaxWaitDuration config =
             word_of_int (case Atoi (Getenv env ''MAX_WAIT_MILLIS'') of
                            Inl err \<Rightarrow> 500 | Inr i \<Rightarrow> i) * Millisecond
         \<and> MaxRunnableTime config =
             word_of_int (case Atoi (Getenv env ''MAX_EXEC_MILLIS'') of
                            Inl err \<Rightarrow> 30000 | Inr i \<Rightarrow> i) * Millisecond"
proof -
  from getInvoker_policy [OF assms] obtain config where
    run: "getInvoker h env w =
             (fst (NewInvokerPool h config w1),
              [ParseCmdCall (Getenv env ''FUNCTION_COMMAND''), NewInvokerPoolCall config],
              snd (NewInvokerPool h config w1))"
    and fields: "MaxInvokerCount config =
             (case Atoi (Getenv env ''MAX_FUNCTION_COUNT'') of Inl err \<Rightarrow> 8 | Inr i \<Rightarrow> i)"
      "MaxWaitDuration config =
             word_of_int (case Atoi (Getenv env ''MAX_WAIT_MILLIS'') of
                            Inl err \<Rightarrow> 500 | Inr i \<Rightarrow> i) * Millisecond"
      "MaxRunnableTime config =
             word_of_int (case Atoi (Getenv env ''MAX_EXEC_MILLIS'') of
                            Inl err \<Rightarrow> 30000 | Inr i \<Rightarrow> i) * Millisecond"
    by blast
  have "poolConfigs (calls (getInvoker h env w)) = [config]"
    by (simp add: run calls_def)
  with fields show ?thesis by blast
qed

lemma poolConfigs_parse_failed:
  assumes "ParseCmd h (Getenv env ''FUNCTION_COMMAND'') w = (Inl e, w1)"
  shows "poolConfigs (calls (getInvoker h env w)) = []"
  by (simp add: getInvoker_parse_failed [OF assms] calls_def)

lemma signedEnv_getenv:
  "Getenv signedEnv ''FUNCTION_COMMAND'' = ''cat''"
  "Getenv signedEnv ''MAX_FUNCTION_COUNT'' = ''-3''"
  "Getenv signedEnv ''MAX_WAIT_MILLIS'' = ''1.5''"
  "Getenv signedEnv ''MAX_EXEC_MILLIS'' = ''+60000''"
  by (simp_all add: Getenv_def signedEnv_def)

lemma zeroCountEnv_getenv:
  "Getenv zeroCountEnv ''FUNCTION_COMMAND'' = ''cat''"
  "Getenv zeroCountEnv ''MAX_FUNCTION_COUNT'' = ''0''"
  "Getenv zeroCountEnv ''MAX_WAIT_MILLIS'' = []"
  "Getenv zeroCountEnv ''MAX_EXEC_MILLIS'' = []"
  by (simp_all add: Getenv_def zeroCountEnv_def)



lemma demoHost_Open:
  "plugin_Open demoHost ''./src.so'' w = (Inr srcPlugin, w @ [''opened ./src.so''])"
  "plugin_Open demoHost ''./sink.so'' w = (Inr sinkPlugin, w @ [''opened ./sink.so''])"
  by (simp_all add: demoHost_def)

lemma versionEnv_getenv:
  "Getenv versionEnv ''SOURCE_PLUGIN_PATH'' = ''./src.so''"
  "Getenv versionEnv ''SOURCE_PLUGIN_SYMBOL'' = ''Version''"
  by (simp_all add: Getenv_def versionEnv_def sinkEnv_def baseEnv_def)

lemma legacyEnv_getenv:
  "Getenv legacyEnv ''SINK_PLUGIN_PATH'' = ''./sink.so''"
  "Getenv legacyEnv ''SINK_PLUGIN_SYMBOL'' = ''Legacy''"
  by (simp_all add: Getenv_def legacyEnv_def sinkEnv_def baseEnv_def)

lemma demo_Lookup:
  "Lookup srcPlugin ''Source'' = Inr (SourceFunc oneEventSource)"
  "Lookup srcPlugin ''Version'' = Inr (OtherSymbol ''*string'')"
  "Lookup sinkPlugin ''Sink'' = Inr (SinkFunc diskFullSink)"
  "Lookup sinkPlugin ''Legacy'' = Inr (OtherSymbol ''func(*fnrun.Result) error'')"
  by (simp_all add: srcPlugin_def sinkPlugin_def)

lemma ctx_examples:
  "ctxInvoker (WithDeadline Background 5) ''job'' [] = ((''ok'', None), [''ran with deadline 5''])"
  "ctxSink (WithDeadline Background 5) ''ok'' [''ran with deadline 5'']
     = (None, [''ran with deadline 5'', ''sent ok''])"
  "ctxInvoker Background ''job'' [] = ((''ok'', None), [''ran with another context''])"
  "ctxSink Background ''ok'' [''ran with another context'']
     = (Some (Error ''context lost''), [''ran with another context'', ''sent ok''])"
  by (simp_all add: ctxInvoker_def ctxSink_def)

lemma watchfulSource_shape:
  "watchfulSource =
     (\<lambda>c ivk u. if Deadline c = None \<and> \<not> hasDone c
                 then forwardSource c ivk u else refusingSource c ivk u)"
  by (rule watchfulSource_def)

lemma getInvoker_ctx_sinkEnv:
  "getInvoker ctxHost sinkEnv [] =
     (Inr ctxInvoker, [ParseCmdCall ''cat'', NewInvokerPoolCall sinkConfig], [''pool''])"
  by (simp add: getInvoker_def sinkEnv_getenv ctxHost_def demoHost_def sinkConfig_def
      Millisecond_def)

lemma getEventSource_ctx_sinkEnv:
  "getEventSource ctxHost sinkEnv [''pool''] =
     (Inr watchfulSource, [OpenCall ''./src.so'', LookupCall ''./src.so'' ''Source''],
      [''pool'', ''opened ./src.so''])"
  by (simp add: getEventSource_def Let_def sinkEnv_getenv ctxHost_def demoHost_def)

lemma getEventSink_ctx_sinkEnv:
  "getEventSink ctxHost sinkEnv [''pool'', ''opened ./src.so''] =
     (Inr (Some ctxSink), [OpenCall ''./sink.so'', LookupCall ''./sink.so'' ''Sink''],
      [''pool'', ''opened ./src.so'', ''opened ./sink.so''])"
  by (simp add: getEventSink_def Let_def sinkEnv_getenv ctxHost_def demoHost_def)

lemma one_config:
  assumes "ParseCmd h (Getenv env ''FUNCTION_COMMAND'') w = (Inr parsed, w1)"
  shows "\<exists>config. poolConfigs (calls (getInvoker h env w)) = [config]"
  using poolConfigs_getInvoker [OF assms] by blast

lemma singleton_all: "list_all P xs \<Longrightarrow> xs = [x] \<Longrightarrow> P x"
  by simp

lemma cmdEnv_absent:
  "map_of cmdEnv ''SINK_PLUGIN_PATH'' = None"
  "map_of cmdEnv ''SOURCE_PLUGIN_PATH'' = None"
  "map_of cmdEnv ''MAX_FUNCTION_COUNT'' = None"
  "map_of cmdEnv ''MAX_WAIT_MILLIS'' = None"
  "map_of cmdEnv ''MAX_EXEC_MILLIS'' = None"
  "map_of pathOnlyEnv ''SOURCE_PLUGIN_SYMBOL'' = None"
  by (simp_all add: cmdEnv_def pathOnlyEnv_def)

lemma prepend_empty:
  "map_of ((key, []) # env) key = Some []"
  "\<forall>k. k \<noteq> key \<longrightarrow> map_of ((key, []) # env) k = map_of env k"
  by simp_all

lemma cmdEnv_parsed:
  "key \<noteq> ''FUNCTION_COMMAND'' \<Longrightarrow>
   ParseCmd demoHost (Getenv ((key, []) # cmdEnv) ''FUNCTION_COMMAND'') []
     = (Inr \<lparr>Path = ''cat'', Args = [''cat''], Env = []\<rparr>, [])"
  by (simp add: Getenv_def cmdEnv_def demoHost_ParseCmd_cat)

section \<open>The sink invoker\<close>

text \<open>
  C1. When the inner invoker returns a result with a nil error, a sink is configured and
  the sink returns a non-nil error, \<open>Invoke\<close> returns the invoker's result together with
  the sink's error; the sink was called once, after the invoker, on that result.
\<close>

theorem Invoke_sink_error:
  assumes "invoker si ctx input w = ((result, None), w1)"
    and "sink si = Some snk"
    and "snk ctx result w1 = (Some sinkErr, w2)"
  shows "Invoke si ctx input w =
           ((result, Some sinkErr), [InvokeCall ctx input, SinkCall ctx result], w2)"
  using assms by (simp add: Invoke_def)

theorem Invoke_sink_error_witness:
  "invoker \<lparr>invoker = okInvoker, sink = Some diskFullSink\<rparr> Background ''job'' []
     = ((''ok'', None), [''ran job''])
   \<and> sink \<lparr>invoker = okInvoker, sink = Some diskFullSink\<rparr> = Some diskFullSink
   \<and> diskFullSink Background ''ok'' [''ran job'']
     = (Some (Error ''disk full''), [''ran job'', ''lost ok''])
   \<and> Invoke \<lparr>invoker = okInvoker, sink = Some diskFullSink\<rparr> Background ''job'' []
     = ((''ok'', Some (Error ''disk full'')),
        [InvokeCall Background ''job'', SinkCall Background ''ok''],
        [''ran job'', ''lost ok''])"
proof -
  let ?si = "\<lparr>invoker = okInvoker, sink = Some diskFullSink\<rparr>"
  have a: "invoker ?si Background ''job'' [] = ((''ok'', None), [''ran job''])"
    by (simp add: okInvoker_def)
  have b: "sink ?si = Some diskFullSink"
    by simp
  have c: "diskFullSink Background ''ok'' [''ran job'']
             = (Some (Error ''disk full''), [''ran job'', ''lost ok''])"
    by (simp add: diskFullSink_def)
  have d: "Invoke ?si Background ''job'' []
     = ((''ok'', Some (Error ''disk full'')),
        [InvokeCall Background ''job'', SinkCall Background ''ok''],
        [''ran job'', ''lost ok''])"
    using a b c by (rule Invoke_sink_error)
  show ?thesis
    using a b c d by (intro conjI)
qed

text \<open>
  C2. When the inner invoker returns a non-nil error, \<open>Invoke\<close> returns the invoker's
  result and error as they are, whatever the result is and whether or not a sink is
  configured. The only call made is the one to the invoker: the sink is not called, and the
  world is the one the invoker left.
\<close>

theorem Invoke_invoker_error:
  assumes "invoker si ctx input w = ((result, Some err), w1)"
  shows "Invoke si ctx input w = ((result, Some err), [InvokeCall ctx input], w1)
         \<and> filter isSinkCall (calls (Invoke si ctx input w)) = []"
  using assms by (simp add: Invoke_def calls_def)

theorem Invoke_invoker_error_witness:
  "invoker \<lparr>invoker = failingInvoker, sink = Some okSink\<rparr> Background ''job'' []
     = ((''partial'', Some (Error ''exit status 1'')), [''ran job''])
   \<and> Invoke \<lparr>invoker = failingInvoker, sink = Some okSink\<rparr> Background ''job'' []
     = ((''partial'', Some (Error ''exit status 1'')), [InvokeCall Background ''job''],
        [''ran job''])
   \<and> filter isSinkCall
        (calls (Invoke \<lparr>invoker = failingInvoker, sink = Some okSink\<rparr> Background ''job'' []))
     = []"
proof -
  let ?si = "\<lparr>invoker = failingInvoker, sink = Some okSink\<rparr>"
  have a: "invoker ?si Background ''job'' []
     = ((''partial'', Some (Error ''exit status 1'')), [''ran job''])"
    by (simp add: failingInvoker_def)
  have d: "Invoke ?si Background ''job'' []
     = ((''partial'', Some (Error ''exit status 1'')), [InvokeCall Background ''job''],
        [''ran job''])
   \<and> filter isSinkCall (calls (Invoke ?si Background ''job'' [])) = []"
    using a by (rule Invoke_invoker_error)
  show ?thesis
    using a d by blast
qed

text \<open>
  C3. When the inner invoker returns \<open>(result, nil)\<close>, \<open>Invoke\<close> returns
  \<open>(result, nil)\<close> with the same result, both when no sink is configured (the sink is
  then not called) and when the configured sink returns nil.
\<close>

theorem Invoke_success:
  assumes "invoker si ctx input w = ((result, None), w1)"
  shows "(sink si = None \<longrightarrow>
            Invoke si ctx input w = ((result, None), [InvokeCall ctx input], w1))
       \<and> (sink si = Some snk \<and> snk ctx result w1 = (None, w2) \<longrightarrow>
            Invoke si ctx input w =
              ((result, None), [InvokeCall ctx input, SinkCall ctx result], w2))"
  using assms by (simp add: Invoke_def)

theorem Invoke_success_witness:
  "invoker \<lparr>invoker = okInvoker, sink = None\<rparr> Background ''job'' []
     = ((''ok'', None), [''ran job''])
   \<and> Invoke \<lparr>invoker = okInvoker, sink = None\<rparr> Background ''job'' []
     = ((''ok'', None), [InvokeCall Background ''job''], [''ran job''])
   \<and> okSink Background ''ok'' [''ran job''] = (None, [''ran job'', ''sent ok''])
   \<and> Invoke \<lparr>invoker = okInvoker, sink = Some okSink\<rparr> Background ''job'' []
     = ((''ok'', None), [InvokeCall Background ''job'', SinkCall Background ''ok''],
        [''ran job'', ''sent ok''])"
proof -
  have a: "invoker \<lparr>invoker = okInvoker, sink = None\<rparr> Background ''job'' []
     = ((''ok'', None), [''ran job''])"
    by (simp add: okInvoker_def)
  have a': "invoker \<lparr>invoker = okInvoker, sink = Some okSink\<rparr> Background ''job'' []
     = ((''ok'', None), [''ran job''])"
    by (simp add: okInvoker_def)
  have b: "okSink Background ''ok'' [''ran job''] = (None, [''ran job'', ''sent ok''])"
    by (simp add: okSink_def)
  have c: "Invoke \<lparr>invoker = okInvoker, sink = None\<rparr> Background ''job'' []
     = ((''ok'', None), [InvokeCall Background ''job''], [''ran job''])"
    using Invoke_success [where si = "\<lparr>invoker = okInvoker, sink = None\<rparr>", OF a]
    by simp
  have d: "Invoke \<lparr>invoker = okInvoker, sink = Some okSink\<rparr> Background ''job'' []
     = ((''ok'', None), [InvokeCall Background ''job'', SinkCall Background ''ok''],
        [''ran job'', ''sent ok''])"
    using Invoke_success [where si = "\<lparr>invoker = okInvoker, sink = Some okSink\<rparr>"
        and snk = okSink and ?w2.0 = "[''ran job'', ''sent ok'']", OF a'] b
    by simp
  show ?thesis
    using a b c d by (intro conjI)
qed

section \<open>Pool configuration\<close>

text \<open>
  C4, as stated, fails. The claim calls an override of the maximum number of invokers that
  is not a positive integer invalid, and promises the default 8 for it. With
  \<open>MAX_FUNCTION_COUNT=0\<close> the pool is configured with \<open>MaxInvokerCount = 0\<close>:
  \<open>getInvoker\<close> checks only that \<open>strconv.Atoi\<close> accepts the value.
\<close>

theorem positive_count_counterexample:
  "Getenv zeroCountEnv ''MAX_FUNCTION_COUNT'' = ''0''
   \<and> map MaxInvokerCount (poolConfigs (calls (getInvoker demoHost zeroCountEnv []))) = [0]
   \<and> map MaxInvokerCount (poolConfigs (calls (getInvoker demoHost zeroCountEnv []))) \<noteq> [8]"
  by (simp add: getInvoker_def zeroCountEnv_getenv demoHost_def calls_def Atoi_examples)

text \<open>
  C4, amended. \<open>MaxInvokerCount\<close> is a Go \<open>int\<close>, not necessarily positive. An
  override is ignored, and the field keeps its default, exactly when \<open>strconv.Atoi\<close>
  rejects the value (the empty string included). Every value \<open>Atoi\<close> accepts is carried
  into the configuration: unchanged for the invoker count, also when it is zero or negative,
  and multiplied by \<open>time.Millisecond\<close> in wrapping 64-bit arithmetic for the two
  durations.
\<close>

theorem pool_config_overrides:
  assumes "ParseCmd h (Getenv env ''FUNCTION_COMMAND'') w = (Inr parsed, w1)"
  shows "map MaxInvokerCount (poolConfigs (calls (getInvoker h env w))) =
           [case Atoi (Getenv env ''MAX_FUNCTION_COUNT'') of Inl err \<Rightarrow> 8 | Inr i \<Rightarrow> i]
       \<and> map MaxWaitDuration (poolConfigs (calls (getInvoker h env w))) =
           [case Atoi (Getenv env ''MAX_WAIT_MILLIS'') of
              Inl err \<Rightarrow> 500 * Millisecond | Inr i \<Rightarrow> word_of_int i * Millisecond]
       \<and> map MaxRunnableTime (poolConfigs (calls (getInvoker h env w))) =
           [case Atoi (Getenv env ''MAX_EXEC_MILLIS'') of
              Inl err \<Rightarrow> 30000 * Millisecond | Inr i \<Rightarrow> word_of_int i * Millisecond]
       \<and> list_all (\<lambda>config. - (2 ^ 63) \<le> MaxInvokerCount config
                              \<and> MaxInvokerCount config \<le> 2 ^ 63 - 1)
           (poolConfigs (calls (getInvoker h env w)))"
proof -
  from poolConfigs_getInvoker [OF assms] obtain config where
    one: "poolConfigs (calls (getInvoker h env w)) = [config]"
    and count: "MaxInvokerCount config =
             (case Atoi (Getenv env ''MAX_FUNCTION_COUNT'') of Inl err \<Rightarrow> 8 | Inr i \<Rightarrow> i)"
    and wait: "MaxWaitDuration config =
             word_of_int (case Atoi (Getenv env ''MAX_WAIT_MILLIS'') of
                            Inl err \<Rightarrow> 500 | Inr i \<Rightarrow> i) * Millisecond"
    and exec: "MaxRunnableTime config =
             word_of_int (case Atoi (Getenv env ''MAX_EXEC_MILLIS'') of
                            Inl err \<Rightarrow> 30000 | Inr i \<Rightarrow> i) * Millisecond"
    by blast
  have range: "- (2 ^ 63) \<le> MaxInvokerCount config \<and> MaxInvokerCount config \<le> 2 ^ 63 - 1"
  proof (cases "Atoi (Getenv env ''MAX_FUNCTION_COUNT'')")
    case (Inl err)
    with count show ?thesis by simp
  next
    case (Inr i)
    with count Atoi_range [OF Inr] show ?thesis by simp
  qed
  have "map MaxWaitDuration [config] =
           [case Atoi (Getenv env ''MAX_WAIT_MILLIS'') of
              Inl err \<Rightarrow> 500 * Millisecond | Inr i \<Rightarrow> word_of_int i * Millisecond]"
    using wait by (simp split: sum.splits)
  moreover have "map MaxRunnableTime [config] =
           [case Atoi (Getenv env ''MAX_EXEC_MILLIS'') of
              Inl err \<Rightarrow> 30000 * Millisecond | Inr i \<Rightarrow> word_of_int i * Millisecond]"
    using exec by (simp split: sum.splits)
  ultimately show ?thesis
    unfolding one using count range by simp
qed

theorem pool_config_overrides_witness:
  "ParseCmd demoHost (Getenv signedEnv ''FUNCTION_COMMAND'') []
     = (Inr \<lparr>Path = ''cat'', Args = [''cat''], Env = []\<rparr>, [])
   \<and> map MaxInvokerCount (poolConfigs (calls (getInvoker demoHost signedEnv []))) = [- 3]
   \<and> map MaxWaitDuration (poolConfigs (calls (getInvoker demoHost signedEnv []))) = [500000000]
   \<and> map MaxRunnableTime (poolConfigs (calls (getInvoker demoHost signedEnv []))) = [60000000000]"
proof -
  have p: "ParseCmd demoHost (Getenv signedEnv ''FUNCTION_COMMAND'') []
     = (Inr \<lparr>Path = ''cat'', Args = [''cat''], Env = []\<rparr>, [])"
    by (simp add: signedEnv_getenv demoHost_ParseCmd_cat)
  show ?thesis
    using p pool_config_overrides [OF p]
    by (simp add: signedEnv_getenv Atoi_examples Millisecond_def)
qed

text \<open>
  C5. Once the command is parsed, \<open>getInvoker\<close> builds one configuration and returns
  whatever \<open>fnrun.NewInvokerPool\<close> returns for it: a variable that is absent or that
  \<open>Atoi\<close> rejects never makes it fail. For each of the three numeric variables, the field
  is its default (8, 500 ms, 30000 ms) when the variable is absent or not parseable, and the
  parsed value otherwise; each field depends on its own variable only.
\<close>

theorem numeric_policy_defaults:
  assumes "ParseCmd h (Getenv env ''FUNCTION_COMMAND'') w = (Inr parsed, w1)"
  shows "\<exists>config.
      getInvoker h env w =
        (fst (NewInvokerPool h config w1),
         [ParseCmdCall (Getenv env ''FUNCTION_COMMAND''), NewInvokerPoolCall config],
         snd (NewInvokerPool h config w1))
    \<and> (map_of env ''MAX_FUNCTION_COUNT'' = None
          \<or> (\<exists>err. Atoi (Getenv env ''MAX_FUNCTION_COUNT'') = Inl err)
        \<longrightarrow> MaxInvokerCount config = 8)
    \<and> (map_of env ''MAX_WAIT_MILLIS'' = None
          \<or> (\<exists>err. Atoi (Getenv env ''MAX_WAIT_MILLIS'') = Inl err)
        \<longrightarrow> MaxWaitDuration config = 500 * Millisecond)
    \<and> (map_of env ''MAX_EXEC_MILLIS'' = None
          \<or> (\<exists>err. Atoi (Getenv env ''MAX_EXEC_MILLIS'') = Inl err)
        \<longrightarrow> MaxRunnableTime config = 30000 * Millisecond)
    \<and> (\<forall>i. Atoi (Getenv env ''MAX_FUNCTION_COUNT'') = Inr i \<longrightarrow> MaxInvokerCount config = i)
    \<and> (\<forall>i. Atoi (Getenv env ''MAX_WAIT_MILLIS'') = Inr i \<longrightarrow>
          MaxWaitDuration config = word_of_int i * Millisecond)
    \<and> (\<forall>i. Atoi (Getenv env ''MAX_EXEC_MILLIS'') = Inr i \<longrightarrow>
          MaxRunnableTime config = word_of_int i * Millisecond)"
proof -
  obtain config where run: "getInvoker h env w =
        (fst (NewInvokerPool h config w1),
         [ParseCmdCall (Getenv env ''FUNCTION_COMMAND''), NewInvokerPoolCall config],
         snd (NewInvokerPool h config w1))"
    and count: "MaxInvokerCount config =
             (case Atoi (Getenv env ''MAX_FUNCTION_COUNT'') of Inl err \<Rightarrow> 8 | Inr i \<Rightarrow> i)"
    and wait: "MaxWaitDuration config =
             word_of_int (case Atoi (Getenv env ''MAX_WAIT_MILLIS'') of
                            Inl err \<Rightarrow> 500 | Inr i \<Rightarrow> i) * Millisecond"
    and exec: "MaxRunnableTime config =
             word_of_int (case Atoi (Getenv env ''MAX_EXEC_MILLIS'') of
                            Inl err \<Rightarrow> 30000 | Inr i \<Rightarrow> i) * Millisecond"
    using getInvoker_policy [OF assms] by blast
  have absent: "map_of env key = None \<Longrightarrow> \<exists>err. Atoi (Getenv env key) = Inl err" for key
    by (simp add: Getenv_absent Atoi_empty)
  have "map_of env ''MAX_FUNCTION_COUNT'' = None
          \<or> (\<exists>err. Atoi (Getenv env ''MAX_FUNCTION_COUNT'') = Inl err)
        \<longrightarrow> MaxInvokerCount config = 8"
    using absent [of "''MAX_FUNCTION_COUNT''"] count by auto
  moreover have "map_of env ''MAX_WAIT_MILLIS'' = None
          \<or> (\<exists>err. Atoi (Getenv env ''MAX_WAIT_MILLIS'') = Inl err)
        \<longrightarrow> MaxWaitDuration config = 500 * Millisecond"
    using absent [of "''MAX_WAIT_MILLIS''"] wait by auto
  moreover have "map_of env ''MAX_EXEC_MILLIS'' = None
          \<or> (\<exists>err. Atoi (Getenv env ''MAX_EXEC_MILLIS'') = Inl err)
        \<longrightarrow> MaxRunnableTime config = 30000 * Millisecond"
    using absent [of "''MAX_EXEC_MILLIS''"] exec by auto
  moreover have "\<forall>i. Atoi (Getenv env ''MAX_FUNCTION_COUNT'') = Inr i \<longrightarrow> MaxInvokerCount config = i"
    using count by simp
  moreover have "\<forall>i. Atoi (Getenv env ''MAX_WAIT_MILLIS'') = Inr i \<longrightarrow>
          MaxWaitDuration config = word_of_int i * Millisecond"
    using wait by simp
  moreover have "\<forall>i. Atoi (Getenv env ''MAX_EXEC_MILLIS'') = Inr i \<longrightarrow>
          MaxRunnableTime config = word_of_int i * Millisecond"
    using exec by simp
  ultimately show ?thesis using run by blast
qed

theorem numeric_policy_defaults_witness:
  "ParseCmd demoHost (Getenv policyEnv ''FUNCTION_COMMAND'') []
     = (Inr \<lparr>Path = ''cat'', Args = [''cat''], Env = []\<rparr>, [])
   \<and> map_of policyEnv ''MAX_FUNCTION_COUNT'' = None
   \<and> Atoi (Getenv policyEnv ''MAX_WAIT_MILLIS'') = Inr 250
   \<and> Atoi (Getenv policyEnv ''MAX_EXEC_MILLIS'') = Inl ErrSyntax
   \<and> retval (getInvoker demoHost policyEnv []) = Inr okInvoker
   \<and> map MaxInvokerCount (poolConfigs (calls (getInvoker demoHost policyEnv []))) = [8]
   \<and> map MaxWaitDuration (poolConfigs (calls (getInvoker demoHost policyEnv []))) = [250000000]
   \<and> map MaxRunnableTime (poolConfigs (calls (getInvoker demoHost policyEnv []))) = [30000000000]"
proof -
  have p: "ParseCmd demoHost (Getenv policyEnv ''FUNCTION_COMMAND'') []
     = (Inr \<lparr>Path = ''cat'', Args = [''cat''], Env = []\<rparr>, [])"
    by (simp add: policyEnv_getenv demoHost_ParseCmd_cat)
  have a: "map_of policyEnv ''MAX_FUNCTION_COUNT'' = None"
    and b: "Atoi (Getenv policyEnv ''MAX_WAIT_MILLIS'') = Inr 250"
    and c: "Atoi (Getenv policyEnv ''MAX_EXEC_MILLIS'') = Inl ErrSyntax"
    by (simp_all add: policyEnv_getenv Atoi_examples)
  from numeric_policy_defaults [OF p] obtain config where
    run: "getInvoker demoHost policyEnv [] =
        (fst (NewInvokerPool demoHost config []),
         [ParseCmdCall (Getenv policyEnv ''FUNCTION_COMMAND''), NewInvokerPoolCall config],
         snd (NewInvokerPool demoHost config []))"
    and count: "map_of policyEnv ''MAX_FUNCTION_COUNT'' = None
          \<or> (\<exists>err. Atoi (Getenv policyEnv ''MAX_FUNCTION_COUNT'') = Inl err)
        \<longrightarrow> MaxInvokerCount config = 8"
    and exec: "map_of policyEnv ''MAX_EXEC_MILLIS'' = None
          \<or> (\<exists>err. Atoi (Getenv policyEnv ''MAX_EXEC_MILLIS'') = Inl err)
        \<longrightarrow> MaxRunnableTime config = 30000 * Millisecond"
    and wait: "\<forall>i. Atoi (Getenv policyEnv ''MAX_WAIT_MILLIS'') = Inr i \<longrightarrow>
          MaxWaitDuration config = word_of_int i * Millisecond"
    by blast
  have "MaxInvokerCount config = 8" using count a by simp
  moreover have "MaxRunnableTime config = 30000000000"
    using exec c by (simp add: Millisecond_def)
  moreover have "MaxWaitDuration config = 250000000"
    using wait b by (simp add: Millisecond_def)
  ultimately show ?thesis
    using p a b c by (simp add: run retval_def calls_def demoHost_NewInvokerPool)
qed

section \<open>The optional sink\<close>



section \<open>Setup failures\<close>

text \<open>
  C7. When \<open>getInvoker\<close> fails, \<open>run\<close> returns its error after the pool calls
  alone. When \<open>getInvoker\<close> succeeds and \<open>getEventSource\<close> fails (for instance
  because the module cannot be opened), \<open>run\<close> returns that error after the pool calls
  followed by the calls of the source resolution. When both succeed and
  \<open>getEventSink\<close> fails, \<open>run\<close> returns that error after the calls of the three steps
  in this order. In all three cases the event source is never invoked.
\<close>

theorem run_setup_failure:
  "(getInvoker h env w = (Inl e, cs1, w1) \<longrightarrow>
      run h env w = (Some e, cs1, w1) \<and> list_all isPoolCall cs1)
   \<and> (getInvoker h env w = (Inr pool, cs1, w1) \<and>
        getEventSource h env w1 = (Inl e, cs2, w2) \<longrightarrow>
      run h env w = (Some e, cs1 @ cs2, w2)
      \<and> list_all isPoolCall cs1 \<and> list_all isPluginCall cs2)
   \<and> (getInvoker h env w = (Inr pool, cs1, w1) \<and>
        getEventSource h env w1 = (Inr src, cs2, w2) \<and>
        getEventSink h env w2 = (Inl e, cs3, w3) \<longrightarrow>
      run h env w = (Some e, cs1 @ cs2 @ cs3, w3)
      \<and> list_all isPoolCall cs1 \<and> list_all isPluginCall cs2 \<and> list_all isPluginCall cs3)
   \<and> ((\<exists>e' cs w'. getInvoker h env w = (Inl e', cs, w'))
        \<or> (\<exists>pool' cs w' e' cs' w''. getInvoker h env w = (Inr pool', cs, w') \<and>
              getEventSource h env w' = (Inl e', cs', w''))
        \<or> (\<exists>pool' cs w' src' cs' w'' e' cs'' w'''. getInvoker h env w = (Inr pool', cs, w') \<and>
              getEventSource h env w' = (Inr src', cs', w'') \<and>
              getEventSink h env w'' = (Inl e', cs'', w''')) \<longrightarrow>
      retval (run h env w) \<noteq> None \<and> filter isSourceCall (calls (run h env w)) = [])"
proof (intro conjI impI)
  assume a: "getInvoker h env w = (Inl e, cs1, w1)"
  show "run h env w = (Some e, cs1, w1)" using a by (rule run_pool_failed)
  show "list_all isPoolCall cs1" using a by (rule getInvoker_calls')
next
  assume a: "getInvoker h env w = (Inr pool, cs1, w1) \<and> getEventSource h env w1 = (Inl e, cs2, w2)"
  from a have p: "getInvoker h env w = (Inr pool, cs1, w1)"
    and q: "getEventSource h env w1 = (Inl e, cs2, w2)" by simp_all
  show "run h env w = (Some e, cs1 @ cs2, w2)" using p q by (rule run_source_failed)
  show "list_all isPoolCall cs1" using p by (rule getInvoker_calls')
  show "list_all isPluginCall cs2" using q by (rule getEventSource_calls')
next
  assume a: "getInvoker h env w = (Inr pool, cs1, w1) \<and>
        getEventSource h env w1 = (Inr src, cs2, w2) \<and>
        getEventSink h env w2 = (Inl e, cs3, w3)"
  from a have p: "getInvoker h env w = (Inr pool, cs1, w1)"
    and q: "getEventSource h env w1 = (Inr src, cs2, w2)"
    and r: "getEventSink h env w2 = (Inl e, cs3, w3)" by simp_all
  show "run h env w = (Some e, cs1 @ cs2 @ cs3, w3)" using p q r by (rule run_sink_failed)
  show "list_all isPoolCall cs1" using p by (rule getInvoker_calls')
  show "list_all isPluginCall cs2" using q by (rule getEventSource_calls')
  show "list_all isPluginCall cs3" using r by (rule getEventSink_calls')
next
  assume a: "(\<exists>e' cs w'. getInvoker h env w = (Inl e', cs, w'))
        \<or> (\<exists>pool' cs w' e' cs' w''. getInvoker h env w = (Inr pool', cs, w') \<and>
              getEventSource h env w' = (Inl e', cs', w''))
        \<or> (\<exists>pool' cs w' src' cs' w'' e' cs'' w'''. getInvoker h env w = (Inr pool', cs, w') \<and>
              getEventSource h env w' = (Inr src', cs', w'') \<and>
              getEventSink h env w'' = (Inl e', cs'', w'''))"
  then consider
      (pool) e' cs w' where "getInvoker h env w = (Inl e', cs, w')"
    | (source) pool' cs w' e' cs' w'' where "getInvoker h env w = (Inr pool', cs, w')"
        "getEventSource h env w' = (Inl e', cs', w'')"
    | (sink) pool' cs w' src' cs' w'' e' cs'' w''' where "getInvoker h env w = (Inr pool', cs, w')"
        "getEventSource h env w' = (Inr src', cs', w'')"
        "getEventSink h env w'' = (Inl e', cs'', w''')"
    by blast
  then have "retval (run h env w) \<noteq> None \<and> filter isSourceCall (calls (run h env w)) = []"
  proof cases
    case pool
    then show ?thesis
      using run_pool_failed [OF pool] getInvoker_calls' [OF pool]
      by (simp add: retval_def calls_def no_source_in_pool_calls)
  next
    case source
    then show ?thesis
      using run_source_failed [OF source] getInvoker_calls' [OF source(1)]
        getEventSource_calls' [OF source(2)]
      by (simp add: retval_def calls_def no_source_in_pool_calls no_source_in_plugin_calls)
  next
    case sink
    then show ?thesis
      using run_sink_failed [OF sink] getInvoker_calls' [OF sink(1)]
        getEventSource_calls' [OF sink(2)] getEventSink_calls' [OF sink(3)]
      by (simp add: retval_def calls_def no_source_in_pool_calls no_source_in_plugin_calls)
  qed
  then show "retval (run h env w) \<noteq> None" and "filter isSourceCall (calls (run h env w)) = []"
    by simp_all
qed

theorem run_setup_failure_witness:
  "run noPoolHost sinkEnv [] =
     (Some (Error ''cannot start workers''),
      [ParseCmdCall ''cat'', NewInvokerPoolCall sinkConfig], [])
   \<and> run noSourceHost sinkEnv [] =
     (Some (Error ''plugin.Open: ./src.so: not found''),
      [ParseCmdCall ''cat'', NewInvokerPoolCall sinkConfig] @ [OpenCall ''./src.so''], [''pool''])
   \<and> run noSinkHost sinkEnv [] =
     (Some (Error ''plugin.Open: ./sink.so: not found''),
      [ParseCmdCall ''cat'', NewInvokerPoolCall sinkConfig]
        @ [OpenCall ''./src.so'', LookupCall ''./src.so'' ''Source''] @ [OpenCall ''./sink.so''],
      [''pool'', ''opened ./src.so''])
   \<and> filter isSourceCall (calls (run noSinkHost sinkEnv [])) = []"
proof -
  note a = getInvoker_noPool_sinkEnv
  note b1 = getInvoker_noSource_sinkEnv and b2 = getEventSource_noSource_sinkEnv
  note c1 = getInvoker_noSink_sinkEnv and c2 = getEventSource_noSink_sinkEnv
    and c3 = getEventSink_noSink_sinkEnv
  have "run noPoolHost sinkEnv [] =
     (Some (Error ''cannot start workers''),
      [ParseCmdCall ''cat'', NewInvokerPoolCall sinkConfig], [])"
    using a run_setup_failure [of noPoolHost sinkEnv "[]" "Error ''cannot start workers''"
        "[ParseCmdCall ''cat'', NewInvokerPoolCall sinkConfig]" "[]"]
    by blast
  moreover have "run noSourceHost sinkEnv [] =
     (Some (Error ''plugin.Open: ./src.so: not found''),
      [ParseCmdCall ''cat'', NewInvokerPoolCall sinkConfig] @ [OpenCall ''./src.so''], [''pool''])"
    using b1 b2 run_setup_failure [of noSourceHost sinkEnv "[]"
        "Error ''plugin.Open: ./src.so: not found''"
        "[ParseCmdCall ''cat'', NewInvokerPoolCall sinkConfig]" "[''pool'']"
        okInvoker "[OpenCall ''./src.so'']" "[''pool'']"]
    by blast
  moreover have "run noSinkHost sinkEnv [] =
     (Some (Error ''plugin.Open: ./sink.so: not found''),
      [ParseCmdCall ''cat'', NewInvokerPoolCall sinkConfig]
        @ [OpenCall ''./src.so'', LookupCall ''./src.so'' ''Source''] @ [OpenCall ''./sink.so''],
      [''pool'', ''opened ./src.so''])
   \<and> filter isSourceCall (calls (run noSinkHost sinkEnv [])) = []"
    using c1 c2 c3 run_setup_failure [of noSinkHost sinkEnv "[]"
        "Error ''plugin.Open: ./sink.so: not found''"
        "[ParseCmdCall ''cat'', NewInvokerPoolCall sinkConfig]" "[''pool'']"
        okInvoker "[OpenCall ''./src.so'', LookupCall ''./src.so'' ''Source'']"
        "[''pool'', ''opened ./src.so'']" oneEventSource "[OpenCall ''./sink.so'']"
        "[''pool'', ''opened ./src.so'']"]
    by blast
  ultimately show ?thesis by blast
qed

section \<open>Exact function types\<close>

text \<open>
  C8. When the looked-up symbol exists but its dynamic type is not the expected function
  type, \<open>getEventSource\<close> and \<open>getEventSink\<close> return an error (the message says
  that the symbol could not be found). Conversely, when either of them returns a function,
  that function is the very value the lookup returned, of exactly the expected type.
\<close>

theorem shape_mismatch_is_error:
  "(Getenv env ''SOURCE_PLUGIN_PATH'' \<noteq> [] \<and> Getenv env ''SOURCE_PLUGIN_SYMBOL'' \<noteq> []
      \<and> plugin_Open h (Getenv env ''SOURCE_PLUGIN_PATH'') w = (Inr p, w1)
      \<and> Lookup p (Getenv env ''SOURCE_PLUGIN_SYMBOL'') = Inr s
      \<and> (\<forall>f. s \<noteq> SourceFunc f)
    \<longrightarrow> getEventSource h env w =
          (Inl (Error (''Symbol '' @ Getenv env ''SOURCE_PLUGIN_SYMBOL''
                       @ '' could not be found in '' @ Getenv env ''SOURCE_PLUGIN_PATH'')),
           [OpenCall (Getenv env ''SOURCE_PLUGIN_PATH''),
            LookupCall (Getenv env ''SOURCE_PLUGIN_PATH'') (Getenv env ''SOURCE_PLUGIN_SYMBOL'')],
           w1))
   \<and> (Getenv env ''SINK_PLUGIN_PATH'' \<noteq> [] \<and> Getenv env ''SINK_PLUGIN_SYMBOL'' \<noteq> []
      \<and> plugin_Open h (Getenv env ''SINK_PLUGIN_PATH'') w = (Inr p, w1)
      \<and> Lookup p (Getenv env ''SINK_PLUGIN_SYMBOL'') = Inr s
      \<and> (\<forall>g. s \<noteq> SinkFunc g)
    \<longrightarrow> getEventSink h env w =
          (Inl (Error (''Symbol '' @ Getenv env ''SINK_PLUGIN_SYMBOL''
                       @ '' could not be found in '' @ Getenv env ''SINK_PLUGIN_PATH'')),
           [OpenCall (Getenv env ''SINK_PLUGIN_PATH''),
            LookupCall (Getenv env ''SINK_PLUGIN_PATH'') (Getenv env ''SINK_PLUGIN_SYMBOL'')],
           w1))
   \<and> (getEventSource h env w = (Inr f, cs, w') \<longrightarrow>
        (\<exists>p'. plugin_Open h (Getenv env ''SOURCE_PLUGIN_PATH'') w = (Inr p', w')
             \<and> Lookup p' (Getenv env ''SOURCE_PLUGIN_SYMBOL'') = Inr (SourceFunc f)))
   \<and> (getEventSink h env w = (Inr (Some g), cs, w') \<longrightarrow>
        (\<exists>p'. plugin_Open h (Getenv env ''SINK_PLUGIN_PATH'') w = (Inr p', w')
             \<and> Lookup p' (Getenv env ''SINK_PLUGIN_SYMBOL'') = Inr (SinkFunc g)))"
proof (intro conjI impI)
  assume a: "Getenv env ''SOURCE_PLUGIN_PATH'' \<noteq> [] \<and> Getenv env ''SOURCE_PLUGIN_SYMBOL'' \<noteq> []
      \<and> plugin_Open h (Getenv env ''SOURCE_PLUGIN_PATH'') w = (Inr p, w1)
      \<and> Lookup p (Getenv env ''SOURCE_PLUGIN_SYMBOL'') = Inr s
      \<and> (\<forall>f. s \<noteq> SourceFunc f)"
  then have "assertSource s = None"
    by (cases s) simp_all
  with a show "getEventSource h env w =
          (Inl (Error (''Symbol '' @ Getenv env ''SOURCE_PLUGIN_SYMBOL''
                       @ '' could not be found in '' @ Getenv env ''SOURCE_PLUGIN_PATH'')),
           [OpenCall (Getenv env ''SOURCE_PLUGIN_PATH''),
            LookupCall (Getenv env ''SOURCE_PLUGIN_PATH'') (Getenv env ''SOURCE_PLUGIN_SYMBOL'')],
           w1)"
    by (simp add: getEventSource_lookup)
next
  assume a: "Getenv env ''SINK_PLUGIN_PATH'' \<noteq> [] \<and> Getenv env ''SINK_PLUGIN_SYMBOL'' \<noteq> []
      \<and> plugin_Open h (Getenv env ''SINK_PLUGIN_PATH'') w = (Inr p, w1)
      \<and> Lookup p (Getenv env ''SINK_PLUGIN_SYMBOL'') = Inr s
      \<and> (\<forall>g. s \<noteq> SinkFunc g)"
  then have "assertSink s = None"
    by (cases s) simp_all
  with a show "getEventSink h env w =
          (Inl (Error (''Symbol '' @ Getenv env ''SINK_PLUGIN_SYMBOL''
                       @ '' could not be found in '' @ Getenv env ''SINK_PLUGIN_PATH'')),
           [OpenCall (Getenv env ''SINK_PLUGIN_PATH''),
            LookupCall (Getenv env ''SINK_PLUGIN_PATH'') (Getenv env ''SINK_PLUGIN_SYMBOL'')],
           w1)"
    by (simp add: getEventSink_lookup)
next
  assume "getEventSource h env w = (Inr f, cs, w')"
  from getEventSource_Inr [OF this]
  show "\<exists>p'. plugin_Open h (Getenv env ''SOURCE_PLUGIN_PATH'') w = (Inr p', w')
             \<and> Lookup p' (Getenv env ''SOURCE_PLUGIN_SYMBOL'') = Inr (SourceFunc f)"
    by blast
next
  assume "getEventSink h env w = (Inr (Some g), cs, w')"
  from getEventSink_Inr_Some [OF this]
  show "\<exists>p'. plugin_Open h (Getenv env ''SINK_PLUGIN_PATH'') w = (Inr p', w')
             \<and> Lookup p' (Getenv env ''SINK_PLUGIN_SYMBOL'') = Inr (SinkFunc g)"
    by blast
qed

theorem shape_mismatch_is_error_witness:
  "Lookup srcPlugin (Getenv versionEnv ''SOURCE_PLUGIN_SYMBOL'') = Inr (OtherSymbol ''*string'')
   \<and> getEventSource demoHost versionEnv [] =
       (Inl (Error ''Symbol Version could not be found in ./src.so''),
        [OpenCall ''./src.so'', LookupCall ''./src.so'' ''Version''], [''opened ./src.so''])
   \<and> Lookup sinkPlugin (Getenv legacyEnv ''SINK_PLUGIN_SYMBOL'')
       = Inr (OtherSymbol ''func(*fnrun.Result) error'')
   \<and> getEventSink demoHost legacyEnv [] =
       (Inl (Error ''Symbol Legacy could not be found in ./sink.so''),
        [OpenCall ''./sink.so'', LookupCall ''./sink.so'' ''Legacy''], [''opened ./sink.so''])
   \<and> getEventSource demoHost sinkEnv [''pool''] =
       (Inr oneEventSource, [OpenCall ''./src.so'', LookupCall ''./src.so'' ''Source''],
        [''pool'', ''opened ./src.so''])
   \<and> Lookup srcPlugin (Getenv sinkEnv ''SOURCE_PLUGIN_SYMBOL'') = Inr (SourceFunc oneEventSource)
   \<and> getEventSink demoHost sinkEnv [''pool'', ''opened ./src.so''] =
       (Inr (Some diskFullSink), [OpenCall ''./sink.so'', LookupCall ''./sink.so'' ''Sink''],
        [''pool'', ''opened ./src.so'', ''opened ./sink.so''])
   \<and> Lookup sinkPlugin (Getenv sinkEnv ''SINK_PLUGIN_SYMBOL'') = Inr (SinkFunc diskFullSink)"
proof -
  have a1: "Getenv versionEnv ''SOURCE_PLUGIN_PATH'' \<noteq> []
      \<and> Getenv versionEnv ''SOURCE_PLUGIN_SYMBOL'' \<noteq> []
      \<and> plugin_Open demoHost (Getenv versionEnv ''SOURCE_PLUGIN_PATH'') []
          = (Inr srcPlugin, [''opened ./src.so''])
      \<and> Lookup srcPlugin (Getenv versionEnv ''SOURCE_PLUGIN_SYMBOL'') = Inr (OtherSymbol ''*string'')
      \<and> (\<forall>f. OtherSymbol ''*string'' \<noteq> (SourceFunc f :: (string, string, string list) symbol))"
    by (simp add: versionEnv_getenv demoHost_Open demo_Lookup)
  have b1: "getEventSource demoHost versionEnv [] =
       (Inl (Error ''Symbol Version could not be found in ./src.so''),
        [OpenCall ''./src.so'', LookupCall ''./src.so'' ''Version''], [''opened ./src.so''])"
    using a1 shape_mismatch_is_error [where h = demoHost and env = versionEnv and w = "[]"
        and p = srcPlugin and ?w1.0 = "[''opened ./src.so'']" and s = "OtherSymbol ''*string''"]
    by (simp add: versionEnv_getenv)
  have a2: "Getenv legacyEnv ''SINK_PLUGIN_PATH'' \<noteq> []
      \<and> Getenv legacyEnv ''SINK_PLUGIN_SYMBOL'' \<noteq> []
      \<and> plugin_Open demoHost (Getenv legacyEnv ''SINK_PLUGIN_PATH'') []
          = (Inr sinkPlugin, [''opened ./sink.so''])
      \<and> Lookup sinkPlugin (Getenv legacyEnv ''SINK_PLUGIN_SYMBOL'')
          = Inr (OtherSymbol ''func(*fnrun.Result) error'')
      \<and> (\<forall>g. OtherSymbol ''func(*fnrun.Result) error''
                \<noteq> (SinkFunc g :: (string, string, string list) symbol))"
    by (simp add: legacyEnv_getenv demoHost_Open demo_Lookup)
  have b2: "getEventSink demoHost legacyEnv [] =
       (Inl (Error ''Symbol Legacy could not be found in ./sink.so''),
        [OpenCall ''./sink.so'', LookupCall ''./sink.so'' ''Legacy''], [''opened ./sink.so''])"
    using a2 shape_mismatch_is_error [where h = demoHost and env = legacyEnv and w = "[]"
        and p = sinkPlugin and ?w1.0 = "[''opened ./sink.so'']"
        and s = "OtherSymbol ''func(*fnrun.Result) error''"]
    by (simp add: legacyEnv_getenv)
  note a3 = getEventSource_demo_sinkEnv
  have b3: "Lookup srcPlugin (Getenv sinkEnv ''SOURCE_PLUGIN_SYMBOL'')
              = Inr (SourceFunc oneEventSource)"
    using a3 shape_mismatch_is_error [where h = demoHost and env = sinkEnv and w = "[''pool'']"
        and f = oneEventSource
        and cs = "[OpenCall ''./src.so'', LookupCall ''./src.so'' ''Source'']"
        and w' = "[''pool'', ''opened ./src.so'']"]
    by (auto simp: sinkEnv_getenv demoHost_Open)
  note a4 = getEventSink_demo_sinkEnv
  have b4: "Lookup sinkPlugin (Getenv sinkEnv ''SINK_PLUGIN_SYMBOL'') = Inr (SinkFunc diskFullSink)"
    using a4 shape_mismatch_is_error [where h = demoHost and env = sinkEnv
        and w = "[''pool'', ''opened ./src.so'']" and g = diskFullSink
        and cs = "[OpenCall ''./sink.so'', LookupCall ''./sink.so'' ''Sink'']"
        and w' = "[''pool'', ''opened ./src.so'', ''opened ./sink.so'']"]
    by (auto simp: sinkEnv_getenv demoHost_Open)
  show ?thesis
    using a1 b1 a2 b2 a3 b3 a4 b4 by blast
qed

section \<open>Contexts\<close>

text \<open>
  C9. What \<open>Invoke\<close> returns is decided by what the inner invoker answers when it is
  applied to the very context \<open>Invoke\<close> received, and by what the sink answers when it is
  applied to that same context: the method, also as seen by the event source through the
  interface, cannot be told apart from one whose collaborators were fixed at that context
  beforehand. When the three setup steps succeed, \<open>run\<close> applies the event source
  exactly once, to \<open>context.Background()\<close>, after the setup calls; a source that asks its
  context for a deadline or a \<open>Done\<close> channel finds neither. In no run is the source
  called more than once or with another context.
\<close>

theorem context_propagation:
  "(invoker si ctx input w = ((result, err), w1) \<longrightarrow>
      (err \<noteq> None \<or> sink si = None \<longrightarrow>
         Invoke si ctx input w = ((result, err), [InvokeCall ctx input], w1))
      \<and> (err = None \<and> sink si = Some snk \<and> snk ctx result w1 = (newErr, w2) \<longrightarrow>
         Invoke si ctx input w =
           ((result, newErr), [InvokeCall ctx input, SinkCall ctx result], w2)))
   \<and> asInvoker si ctx input w =
       (retval (Invoke si ctx input w), world (Invoke si ctx input w))
   \<and> asInvoker si ctx input w =
       asInvoker \<lparr>invoker = (\<lambda>c. invoker si ctx),
                  sink = map_option (\<lambda>f c. f ctx) (sink si)\<rparr> ctx' input w
   \<and> list_all (\<lambda>c. callContext c = Some ctx) (calls (Invoke si ctx input w))
   \<and> (getInvoker h env v = (Inr pool, cs1, v1) \<and>
      getEventSource h env v1 = (Inr src, cs2, v2) \<and>
      getEventSink h env v2 = (Inr ev, cs3, v3) \<longrightarrow>
        run h env v =
          (fst (src Background (asInvoker \<lparr>invoker = pool, sink = ev\<rparr>) v3),
           cs1 @ cs2 @ cs3 @ [SourceCall Background],
           snd (src Background (asInvoker \<lparr>invoker = pool, sink = ev\<rparr>) v3))
        \<and> filter isSourceCall (calls (run h env v)) = [SourceCall Background])
   \<and> (getInvoker h env v = (Inr pool, cs1, v1) \<and>
      getEventSource h env v1 =
        (Inr (\<lambda>c ivk u. if Deadline c = None \<and> \<not> hasDone c then f c ivk u else g c ivk u),
         cs2, v2) \<and>
      getEventSink h env v2 = (Inr ev, cs3, v3) \<longrightarrow>
        run h env v =
          (fst (f Background (asInvoker \<lparr>invoker = pool, sink = ev\<rparr>) v3),
           cs1 @ cs2 @ cs3 @ [SourceCall Background],
           snd (f Background (asInvoker \<lparr>invoker = pool, sink = ev\<rparr>) v3)))
   \<and> (filter isSourceCall (calls (run h env v)) = []
      \<or> filter isSourceCall (calls (run h env v)) = [SourceCall Background])"
proof (intro conjI impI)
  assume a: "invoker si ctx input w = ((result, err), w1)"
    and "err \<noteq> None \<or> sink si = None"
  then show "Invoke si ctx input w = ((result, err), [InvokeCall ctx input], w1)"
    by (auto simp: Invoke_def)
next
  assume "invoker si ctx input w = ((result, err), w1)"
    and "err = None \<and> sink si = Some snk \<and> snk ctx result w1 = (newErr, w2)"
  then show "Invoke si ctx input w =
           ((result, newErr), [InvokeCall ctx input, SinkCall ctx result], w2)"
    by (auto simp: Invoke_def)
next
  show "asInvoker si ctx input w =
       (retval (Invoke si ctx input w), world (Invoke si ctx input w))"
    by (simp add: asInvoker_def retval_def world_def split: prod.splits)
next
  show "asInvoker si ctx input w =
       asInvoker \<lparr>invoker = (\<lambda>c. invoker si ctx),
                  sink = map_option (\<lambda>f c. f ctx) (sink si)\<rparr> ctx' input w"
    by (cases "sink si") (simp_all add: asInvoker_def Invoke_def split: prod.splits)
next
  have "calls (Invoke si ctx input w) = [InvokeCall ctx input]
      \<or> calls (Invoke si ctx input w) =
           [InvokeCall ctx input, SinkCall ctx (fst (fst (invoker si ctx input w)))]"
    by (simp add: Invoke_def calls_def split: prod.splits option.splits)
  then show "list_all (\<lambda>c. callContext c = Some ctx) (calls (Invoke si ctx input w))"
    by auto
next
  assume a: "getInvoker h env v = (Inr pool, cs1, v1) \<and>
      getEventSource h env v1 = (Inr src, cs2, v2) \<and>
      getEventSink h env v2 = (Inr ev, cs3, v3)"
  then have g1: "getInvoker h env v = (Inr pool, cs1, v1)"
    and g2: "getEventSource h env v1 = (Inr src, cs2, v2)"
    and g3: "getEventSink h env v2 = (Inr ev, cs3, v3)" by simp_all
  show r: "run h env v =
          (fst (src Background (asInvoker \<lparr>invoker = pool, sink = ev\<rparr>) v3),
           cs1 @ cs2 @ cs3 @ [SourceCall Background],
           snd (src Background (asInvoker \<lparr>invoker = pool, sink = ev\<rparr>) v3))"
    using g1 g2 g3 by (rule run_setup_ok)
  have "filter isSourceCall cs1 = []" "filter isSourceCall cs2 = []" "filter isSourceCall cs3 = []"
    using getInvoker_calls' [OF g1] getEventSource_calls' [OF g2] getEventSink_calls' [OF g3]
    by (simp_all add: no_source_in_pool_calls no_source_in_plugin_calls)
  then show "filter isSourceCall (calls (run h env v)) = [SourceCall Background]"
    by (simp add: r calls_def)
next
  assume a: "getInvoker h env v = (Inr pool, cs1, v1) \<and>
      getEventSource h env v1 =
        (Inr (\<lambda>c ivk u. if Deadline c = None \<and> \<not> hasDone c then f c ivk u else g c ivk u),
         cs2, v2) \<and>
      getEventSink h env v2 = (Inr ev, cs3, v3)"
  then have g1: "getInvoker h env v = (Inr pool, cs1, v1)"
    and g2: "getEventSource h env v1 =
        (Inr (\<lambda>c ivk u. if Deadline c = None \<and> \<not> hasDone c then f c ivk u else g c ivk u),
         cs2, v2)"
    and g3: "getEventSink h env v2 = (Inr ev, cs3, v3)" by simp_all
  show "run h env v =
          (fst (f Background (asInvoker \<lparr>invoker = pool, sink = ev\<rparr>) v3),
           cs1 @ cs2 @ cs3 @ [SourceCall Background],
           snd (f Background (asInvoker \<lparr>invoker = pool, sink = ev\<rparr>) v3))"
    using run_setup_ok [OF g1 g2 g3] by simp
next
  show "filter isSourceCall (calls (run h env v)) = []
      \<or> filter isSourceCall (calls (run h env v)) = [SourceCall Background]"
    by (cases h env v rule: run_cases) (simp_all add: calls_def)
qed

theorem context_propagation_witness:
  "Invoke \<lparr>invoker = ctxInvoker, sink = Some ctxSink\<rparr> (WithDeadline Background 5) ''job'' []
     = ((''ok'', None),
        [InvokeCall (WithDeadline Background 5) ''job'', SinkCall (WithDeadline Background 5) ''ok''],
        [''ran with deadline 5'', ''sent ok''])
   \<and> Invoke \<lparr>invoker = ctxInvoker, sink = Some ctxSink\<rparr> Background ''job'' []
     = ((''ok'', Some (Error ''context lost'')),
        [InvokeCall Background ''job'', SinkCall Background ''ok''],
        [''ran with another context'', ''sent ok''])
   \<and> asInvoker \<lparr>invoker = ctxInvoker, sink = Some ctxSink\<rparr> (WithDeadline Background 5)
        ''event'' [''pool'', ''opened ./src.so'', ''opened ./sink.so'']
     = ((''ok'', None),
        [''pool'', ''opened ./src.so'', ''opened ./sink.so'', ''ran with deadline 5'', ''sent ok''])
   \<and> run ctxHost sinkEnv [] =
       (None,
        [ParseCmdCall ''cat'', NewInvokerPoolCall sinkConfig,
         OpenCall ''./src.so'', LookupCall ''./src.so'' ''Source'',
         OpenCall ''./sink.so'', LookupCall ''./sink.so'' ''Sink'',
         SourceCall Background],
        [''pool'', ''opened ./src.so'', ''opened ./sink.so'', ''ran with deadline 5'', ''sent ok''])
   \<and> filter isSourceCall (calls (run ctxHost sinkEnv [])) = [SourceCall Background]"
proof -
  let ?si = "\<lparr>invoker = ctxInvoker, sink = Some ctxSink\<rparr>"
  let ?d = "WithDeadline Background 5"
  note c1 = conjunct1 and c2 = conjunct2
  have i1: "invoker ?si ?d ''job'' [] = ((''ok'', None), [''ran with deadline 5''])"
    by (simp add: ctx_examples)
  have s1: "None = None \<and> sink ?si = Some ctxSink
      \<and> ctxSink ?d ''ok'' [''ran with deadline 5''] = (None, [''ran with deadline 5'', ''sent ok''])"
    by (simp add: ctx_examples)
  have a: "Invoke ?si ?d ''job'' []
     = ((''ok'', None), [InvokeCall ?d ''job'', SinkCall ?d ''ok''],
        [''ran with deadline 5'', ''sent ok''])"
    by (rule context_propagation [THEN c1, THEN mp, OF i1, THEN c2, THEN mp, OF s1])
  have i2: "invoker ?si Background ''job'' [] = ((''ok'', None), [''ran with another context''])"
    by (simp add: ctx_examples)
  have s2: "None = None \<and> sink ?si = Some ctxSink
      \<and> ctxSink Background ''ok'' [''ran with another context'']
          = (Some (Error ''context lost''), [''ran with another context'', ''sent ok''])"
    by (simp add: ctx_examples)
  have b: "Invoke ?si Background ''job'' []
     = ((''ok'', Some (Error ''context lost'')),
        [InvokeCall Background ''job'', SinkCall Background ''ok''],
        [''ran with another context'', ''sent ok''])"
    by (rule context_propagation [THEN c1, THEN mp, OF i2, THEN c2, THEN mp, OF s2])
  have i3: "invoker ?si ?d ''event'' [''pool'', ''opened ./src.so'', ''opened ./sink.so'']
      = ((''ok'', None),
         [''pool'', ''opened ./src.so'', ''opened ./sink.so'', ''ran with deadline 5''])"
    by (simp add: ctxInvoker_def)
  have s3: "None = None \<and> sink ?si = Some ctxSink
      \<and> ctxSink ?d ''ok'' [''pool'', ''opened ./src.so'', ''opened ./sink.so'', ''ran with deadline 5'']
          = (None, [''pool'', ''opened ./src.so'', ''opened ./sink.so'', ''ran with deadline 5'',
                    ''sent ok''])"
    by (simp add: ctxSink_def)
  have inv3: "Invoke ?si ?d ''event'' [''pool'', ''opened ./src.so'', ''opened ./sink.so'']
     = ((''ok'', None), [InvokeCall ?d ''event'', SinkCall ?d ''ok''],
        [''pool'', ''opened ./src.so'', ''opened ./sink.so'', ''ran with deadline 5'', ''sent ok''])"
    by (rule context_propagation [THEN c1, THEN mp, OF i3, THEN c2, THEN mp, OF s3])
  have c: "asInvoker ?si ?d ''event'' [''pool'', ''opened ./src.so'', ''opened ./sink.so'']
     = ((''ok'', None),
        [''pool'', ''opened ./src.so'', ''opened ./sink.so'', ''ran with deadline 5'', ''sent ok''])"
    using context_propagation [where si = ?si and ctx = ?d
        and input = "''event''" and w = "[''pool'', ''opened ./src.so'', ''opened ./sink.so'']",
        THEN c2, THEN c1]
    by (simp add: inv3 retval_def world_def)
  have steps: "getInvoker ctxHost sinkEnv [] =
        (Inr ctxInvoker, [ParseCmdCall ''cat'', NewInvokerPoolCall sinkConfig], [''pool''])
      \<and> getEventSource ctxHost sinkEnv [''pool''] =
        (Inr (\<lambda>c ivk u. if Deadline c = None \<and> \<not> hasDone c
                          then forwardSource c ivk u else refusingSource c ivk u),
         [OpenCall ''./src.so'', LookupCall ''./src.so'' ''Source''],
         [''pool'', ''opened ./src.so''])
      \<and> getEventSink ctxHost sinkEnv [''pool'', ''opened ./src.so''] =
        (Inr (Some ctxSink), [OpenCall ''./sink.so'', LookupCall ''./sink.so'' ''Sink''],
         [''pool'', ''opened ./src.so'', ''opened ./sink.so''])"
    using getInvoker_ctx_sinkEnv getEventSource_ctx_sinkEnv getEventSink_ctx_sinkEnv
    unfolding watchfulSource_shape by (intro conjI)
  have "run ctxHost sinkEnv [] =
          (fst (forwardSource Background (asInvoker ?si)
                  [''pool'', ''opened ./src.so'', ''opened ./sink.so'']),
           [ParseCmdCall ''cat'', NewInvokerPoolCall sinkConfig]
             @ [OpenCall ''./src.so'', LookupCall ''./src.so'' ''Source'']
             @ [OpenCall ''./sink.so'', LookupCall ''./sink.so'' ''Sink'']
             @ [SourceCall Background],
           snd (forwardSource Background (asInvoker ?si)
                  [''pool'', ''opened ./src.so'', ''opened ./sink.so'']))"
    by (rule context_propagation [THEN c2, THEN c2, THEN c2, THEN c2, THEN c2, THEN c1,
          THEN mp, OF steps])
  then have d: "run ctxHost sinkEnv [] =
       (None,
        [ParseCmdCall ''cat'', NewInvokerPoolCall sinkConfig,
         OpenCall ''./src.so'', LookupCall ''./src.so'' ''Source'',
         OpenCall ''./sink.so'', LookupCall ''./sink.so'' ''Sink'',
         SourceCall Background],
        [''pool'', ''opened ./src.so'', ''opened ./sink.so'', ''ran with deadline 5'', ''sent ok''])"
    by (simp add: forwardSource_def c)
  have e: "filter isSourceCall (calls (run ctxHost sinkEnv [])) = [SourceCall Background]"
    by (simp add: d calls_def)
  show ?thesis
    by (intro conjI) (rule a b c d e)+
qed

section \<open>Empty values\<close>

text \<open>
  C10. Take an environment in which a variable is absent, and one that differs from it only
  in that the variable is set to the empty string. \<open>os.Getenv\<close> cannot tell them apart,
  so event-source and event-sink resolution behave identically and the numeric fields of
  the pool configuration are the same. In particular an empty \<open>SINK_PLUGIN_PATH\<close> means
  no sink and no error, an empty \<open>SOURCE_PLUGIN_PATH\<close> or \<open>SOURCE_PLUGIN_SYMBOL\<close> gives
  the error of the missing variable, and an empty numeric variable leaves the default in
  place. (The list \<open>os.Environ()\<close> handed to the command still shows the empty variable.)
\<close>

theorem empty_value_is_absent:
  assumes "map_of env key = None"
    and "map_of env' key = Some []"
    and "\<forall>k. k \<noteq> key \<longrightarrow> map_of env' k = map_of env k"
  shows "Getenv env' = Getenv env
       \<and> getEventSource h env' w = getEventSource h env w
       \<and> getEventSink h env' w = getEventSink h env w
       \<and> map (\<lambda>c. (MaxInvokerCount c, MaxWaitDuration c, MaxRunnableTime c))
              (poolConfigs (calls (getInvoker h env' w)))
          = map (\<lambda>c. (MaxInvokerCount c, MaxWaitDuration c, MaxRunnableTime c))
              (poolConfigs (calls (getInvoker h env w)))
       \<and> (key = ''SINK_PLUGIN_PATH'' \<longrightarrow> getEventSink h env' w = (Inr None, [], w))
       \<and> (key = ''SOURCE_PLUGIN_PATH'' \<longrightarrow>
            getEventSource h env' w =
              (Inl (Error ''SOURCE_PLUGIN_PATH is a required environment variable''), [], w))
       \<and> (key = ''SOURCE_PLUGIN_SYMBOL'' \<longrightarrow>
            (\<exists>e. retval (getEventSource h env' w) = Inl e)
            \<and> (\<forall>p w1. Getenv env' ''SOURCE_PLUGIN_PATH'' \<noteq> [] \<and>
                  plugin_Open h (Getenv env' ''SOURCE_PLUGIN_PATH'') w = (Inr p, w1) \<longrightarrow>
                  getEventSource h env' w =
                    (Inl (Error ''SOURCE_PLUGIN_SYMBOL is a required environment variable''),
                     [OpenCall (Getenv env' ''SOURCE_PLUGIN_PATH'')], w1)))
       \<and> (key = ''MAX_FUNCTION_COUNT'' \<longrightarrow>
            list_all (\<lambda>c. MaxInvokerCount c = 8) (poolConfigs (calls (getInvoker h env' w))))
       \<and> (key = ''MAX_WAIT_MILLIS'' \<longrightarrow>
            list_all (\<lambda>c. MaxWaitDuration c = 500 * Millisecond)
              (poolConfigs (calls (getInvoker h env' w))))
       \<and> (key = ''MAX_EXEC_MILLIS'' \<longrightarrow>
            list_all (\<lambda>c. MaxRunnableTime c = 30000 * Millisecond)
              (poolConfigs (calls (getInvoker h env' w))))"
proof -
  have same: "Getenv env' = Getenv env"
  proof
    fix k
    show "Getenv env' k = Getenv env k"
      using assms by (cases "k = key") (simp_all add: Getenv_def)
  qed
  have empty: "Getenv env' key = []"
    using assms(2) by (rule Getenv_empty)
  have fields: "\<exists>config. poolConfigs (calls (getInvoker h e w)) = [config]
         \<and> MaxInvokerCount config =
             (case Atoi (Getenv e ''MAX_FUNCTION_COUNT'') of Inl err \<Rightarrow> 8 | Inr i \<Rightarrow> i)
         \<and> MaxWaitDuration config =
             word_of_int (case Atoi (Getenv e ''MAX_WAIT_MILLIS'') of
                            Inl err \<Rightarrow> 500 | Inr i \<Rightarrow> i) * Millisecond
         \<and> MaxRunnableTime config =
             word_of_int (case Atoi (Getenv e ''MAX_EXEC_MILLIS'') of
                            Inl err \<Rightarrow> 30000 | Inr i \<Rightarrow> i) * Millisecond"
    if "ParseCmd h (Getenv e ''FUNCTION_COMMAND'') w = (Inr parsed, w1)" for e parsed w1
    using that by (rule poolConfigs_getInvoker)
  obtain r w1 where parse: "ParseCmd h (Getenv env ''FUNCTION_COMMAND'') w = (r, w1)"
    by (cases "ParseCmd h (Getenv env ''FUNCTION_COMMAND'') w")
  then have parse': "ParseCmd h (Getenv env' ''FUNCTION_COMMAND'') w = (r, w1)"
    by (simp add: same)
  have policy: "map (\<lambda>c. (MaxInvokerCount c, MaxWaitDuration c, MaxRunnableTime c))
              (poolConfigs (calls (getInvoker h env' w)))
          = map (\<lambda>c. (MaxInvokerCount c, MaxWaitDuration c, MaxRunnableTime c))
              (poolConfigs (calls (getInvoker h env w)))"
  proof (cases r)
    case (Inl e)
    with parse parse' show ?thesis by (simp add: poolConfigs_parse_failed)
  next
    case (Inr parsed)
    with parse parse' fields [of env parsed w1] fields [of env' parsed w1]
    show ?thesis by (auto simp: same)
  qed
  have count: "list_all (\<lambda>c. MaxInvokerCount c = 8) (poolConfigs (calls (getInvoker h env' w)))"
    if "key = ''MAX_FUNCTION_COUNT''"
  proof (cases r)
    case (Inl e)
    with parse' show ?thesis by (simp add: poolConfigs_parse_failed)
  next
    case (Inr parsed)
    with parse' fields [of env' parsed w1] empty that
    show ?thesis by (auto simp: Atoi_empty)
  qed
  have wait: "list_all (\<lambda>c. MaxWaitDuration c = 500 * Millisecond)
              (poolConfigs (calls (getInvoker h env' w)))"
    if "key = ''MAX_WAIT_MILLIS''"
  proof (cases r)
    case (Inl e)
    with parse' show ?thesis by (simp add: poolConfigs_parse_failed)
  next
    case (Inr parsed)
    with parse' fields [of env' parsed w1] empty that
    show ?thesis by (auto simp: Atoi_empty)
  qed
  have exec: "list_all (\<lambda>c. MaxRunnableTime c = 30000 * Millisecond)
              (poolConfigs (calls (getInvoker h env' w)))"
    if "key = ''MAX_EXEC_MILLIS''"
  proof (cases r)
    case (Inl e)
    with parse' show ?thesis by (simp add: poolConfigs_parse_failed)
  next
    case (Inr parsed)
    with parse' fields [of env' parsed w1] empty that
    show ?thesis by (auto simp: Atoi_empty)
  qed
  have source: "getEventSource h env' w = getEventSource h env w"
    unfolding getEventSource_def same by (rule refl)
  have sink: "getEventSink h env' w = getEventSink h env w"
    unfolding getEventSink_def same by (rule refl)
  have sinkPath: "getEventSink h env' w = (Inr None, [], w)" if "key = ''SINK_PLUGIN_PATH''"
    using that empty by (simp add: getEventSink_no_path)
  have sourcePath: "getEventSource h env' w =
      (Inl (Error ''SOURCE_PLUGIN_PATH is a required environment variable''), [], w)"
    if "key = ''SOURCE_PLUGIN_PATH''"
    using that empty by (simp add: getEventSource_no_path)
  have sourceSymbol: "(\<exists>e. retval (getEventSource h env' w) = Inl e)
            \<and> (\<forall>p w1. Getenv env' ''SOURCE_PLUGIN_PATH'' \<noteq> [] \<and>
                  plugin_Open h (Getenv env' ''SOURCE_PLUGIN_PATH'') w = (Inr p, w1) \<longrightarrow>
                  getEventSource h env' w =
                    (Inl (Error ''SOURCE_PLUGIN_SYMBOL is a required environment variable''),
                     [OpenCall (Getenv env' ''SOURCE_PLUGIN_PATH'')], w1))"
    if "key = ''SOURCE_PLUGIN_SYMBOL''"
  proof -
    from that empty have sym: "Getenv env' ''SOURCE_PLUGIN_SYMBOL'' = []" by simp
    have "\<exists>e. retval (getEventSource h env' w) = Inl e"
      using sym by (simp add: getEventSource_def retval_def Let_def split: prod.splits sum.splits)
    moreover have "getEventSource h env' w =
                    (Inl (Error ''SOURCE_PLUGIN_SYMBOL is a required environment variable''),
                     [OpenCall (Getenv env' ''SOURCE_PLUGIN_PATH'')], w1)"
      if "Getenv env' ''SOURCE_PLUGIN_PATH'' \<noteq> []"
        and "plugin_Open h (Getenv env' ''SOURCE_PLUGIN_PATH'') w = (Inr p, w1)" for p w1
      using that sym by (rule getEventSource_no_symbol)
    ultimately show ?thesis by blast
  qed
  show ?thesis
    using same source sink policy sinkPath sourcePath sourceSymbol count wait exec
    by blast
qed

theorem empty_value_is_absent_witness:
  "getEventSink demoHost ((''SINK_PLUGIN_PATH'', []) # cmdEnv) [] = (Inr None, [], [])
   \<and> getEventSink demoHost ((''SINK_PLUGIN_PATH'', []) # cmdEnv) [] = getEventSink demoHost cmdEnv []
   \<and> getEventSource demoHost ((''SOURCE_PLUGIN_PATH'', []) # cmdEnv) [] =
       (Inl (Error ''SOURCE_PLUGIN_PATH is a required environment variable''), [], [])
   \<and> getEventSource demoHost ((''SOURCE_PLUGIN_PATH'', []) # cmdEnv) [] =
       getEventSource demoHost cmdEnv []
   \<and> getEventSource demoHost ((''SOURCE_PLUGIN_SYMBOL'', []) # pathOnlyEnv) [] =
       (Inl (Error ''SOURCE_PLUGIN_SYMBOL is a required environment variable''),
        [OpenCall ''./src.so''], [''opened ./src.so''])
   \<and> getEventSource demoHost ((''SOURCE_PLUGIN_SYMBOL'', []) # pathOnlyEnv) [] =
       getEventSource demoHost pathOnlyEnv []
   \<and> map MaxInvokerCount
        (poolConfigs (calls (getInvoker demoHost ((''MAX_FUNCTION_COUNT'', []) # cmdEnv) []))) = [8]
   \<and> map MaxWaitDuration
        (poolConfigs (calls (getInvoker demoHost ((''MAX_WAIT_MILLIS'', []) # cmdEnv) [])))
       = [500000000]
   \<and> map MaxRunnableTime
        (poolConfigs (calls (getInvoker demoHost ((''MAX_EXEC_MILLIS'', []) # cmdEnv) [])))
       = [30000000000]"
proof -
  note sinkPath = empty_value_is_absent [OF cmdEnv_absent(1) prepend_empty,
      where h = demoHost and w = "[]"]
  note sourcePath = empty_value_is_absent [OF cmdEnv_absent(2) prepend_empty,
      where h = demoHost and w = "[]"]
  note sourceSymbol = empty_value_is_absent [OF cmdEnv_absent(6) prepend_empty,
      where h = demoHost and w = "[]"]
  note count = empty_value_is_absent [OF cmdEnv_absent(3) prepend_empty,
      where h = demoHost and w = "[]"]
  note wait = empty_value_is_absent [OF cmdEnv_absent(4) prepend_empty,
      where h = demoHost and w = "[]"]
  note exec = empty_value_is_absent [OF cmdEnv_absent(5) prepend_empty,
      where h = demoHost and w = "[]"]
  note c1 = conjunct1 and c2 = conjunct2
  have a: "getEventSink demoHost ((''SINK_PLUGIN_PATH'', []) # cmdEnv) [] = (Inr None, [], [])"
    by (rule sinkPath [THEN c2, THEN c2, THEN c2, THEN c2, THEN c1, THEN mp, OF refl])
  have a': "getEventSink demoHost ((''SINK_PLUGIN_PATH'', []) # cmdEnv) [] =
      getEventSink demoHost cmdEnv []"
    by (rule sinkPath [THEN c2, THEN c2, THEN c1])
  have b: "getEventSource demoHost ((''SOURCE_PLUGIN_PATH'', []) # cmdEnv) [] =
       (Inl (Error ''SOURCE_PLUGIN_PATH is a required environment variable''), [], [])"
    by (rule sourcePath [THEN c2, THEN c2, THEN c2, THEN c2, THEN c2, THEN c1, THEN mp, OF refl])
  have b': "getEventSource demoHost ((''SOURCE_PLUGIN_PATH'', []) # cmdEnv) [] =
       getEventSource demoHost cmdEnv []"
    by (rule sourcePath [THEN c2, THEN c1])
  have open_src: "Getenv ((''SOURCE_PLUGIN_SYMBOL'', []) # pathOnlyEnv) ''SOURCE_PLUGIN_PATH'' \<noteq> []
      \<and> plugin_Open demoHost
            (Getenv ((''SOURCE_PLUGIN_SYMBOL'', []) # pathOnlyEnv) ''SOURCE_PLUGIN_PATH'') []
          = (Inr srcPlugin, [''opened ./src.so''])"
    by (simp add: Getenv_def pathOnlyEnv_def demoHost_Open)
  have "getEventSource demoHost ((''SOURCE_PLUGIN_SYMBOL'', []) # pathOnlyEnv) [] =
       (Inl (Error ''SOURCE_PLUGIN_SYMBOL is a required environment variable''),
        [OpenCall (Getenv ((''SOURCE_PLUGIN_SYMBOL'', []) # pathOnlyEnv) ''SOURCE_PLUGIN_PATH'')],
        [''opened ./src.so''])"
    by (rule sourceSymbol [THEN c2, THEN c2, THEN c2, THEN c2, THEN c2, THEN c2, THEN c1,
          THEN mp, OF refl, THEN c2, THEN spec, THEN spec, THEN mp, OF open_src])
  then have c: "getEventSource demoHost ((''SOURCE_PLUGIN_SYMBOL'', []) # pathOnlyEnv) [] =
       (Inl (Error ''SOURCE_PLUGIN_SYMBOL is a required environment variable''),
        [OpenCall ''./src.so''], [''opened ./src.so''])"
    by (simp add: Getenv_def pathOnlyEnv_def)
  have c': "getEventSource demoHost ((''SOURCE_PLUGIN_SYMBOL'', []) # pathOnlyEnv) [] =
       getEventSource demoHost pathOnlyEnv []"
    by (rule sourceSymbol [THEN c2, THEN c1])
  have d: "map MaxInvokerCount
        (poolConfigs (calls (getInvoker demoHost ((''MAX_FUNCTION_COUNT'', []) # cmdEnv) []))) = [8]"
  proof -
    obtain config where one: "poolConfigs
        (calls (getInvoker demoHost ((''MAX_FUNCTION_COUNT'', []) # cmdEnv) [])) = [config]"
      using one_config [OF cmdEnv_parsed [of "''MAX_FUNCTION_COUNT''"]] by auto
    have "MaxInvokerCount config = 8"
      using count [THEN c2, THEN c2, THEN c2, THEN c2, THEN c2, THEN c2, THEN c2, THEN c1,
          THEN mp, OF refl] one
      by (rule singleton_all)
    then show ?thesis by (simp add: one)
  qed
  have e: "map MaxWaitDuration
        (poolConfigs (calls (getInvoker demoHost ((''MAX_WAIT_MILLIS'', []) # cmdEnv) [])))
       = [500000000]"
  proof -
    obtain config where one: "poolConfigs
        (calls (getInvoker demoHost ((''MAX_WAIT_MILLIS'', []) # cmdEnv) [])) = [config]"
      using one_config [OF cmdEnv_parsed [of "''MAX_WAIT_MILLIS''"]] by auto
    have "MaxWaitDuration config = 500 * Millisecond"
      using wait [THEN c2, THEN c2, THEN c2, THEN c2, THEN c2, THEN c2, THEN c2, THEN c2,
          THEN c1, THEN mp, OF refl] one
      by (rule singleton_all)
    then show ?thesis by (simp add: one Millisecond_def)
  qed
  have f: "map MaxRunnableTime
        (poolConfigs (calls (getInvoker demoHost ((''MAX_EXEC_MILLIS'', []) # cmdEnv) [])))
       = [30000000000]"
  proof -
    obtain config where one: "poolConfigs
        (calls (getInvoker demoHost ((''MAX_EXEC_MILLIS'', []) # cmdEnv) [])) = [config]"
      using one_config [OF cmdEnv_parsed [of "''MAX_EXEC_MILLIS''"]] by auto
    have "MaxRunnableTime config = 30000 * Millisecond"
      using exec [THEN c2, THEN c2, THEN c2, THEN c2, THEN c2, THEN c2, THEN c2, THEN c2,
          THEN c2, THEN mp, OF refl] one
      by (rule singleton_all)
    then show ?thesis by (simp add: one Millisecond_def)
  qed
  show ?thesis
    by (intro conjI) (rule a a' b b' c c' d e f)+
qed

end
